theory Spec2Isabelle
  imports Complex_Main
begin

section \<open>Execution options and their merge (pkg/executor/result.go)\<close>

text \<open>
  Go values that the model has to distinguish:
  \<^item> a pointer that may be \<open>nil\<close> is an \<open>option\<close>;
  \<^item> a map that may be \<open>nil\<close> is an \<open>option\<close> of a partial function, so the empty
    map made by \<open>make\<close> (\<open>Some Map.empty\<close>) differs from the nil map (\<open>None\<close>);
  \<^item> \<open>time.Duration\<close> is a count of nanoseconds (an \<open>int64\<close>); no arithmetic is done on
    it here, it is only compared with zero and copied, so it is an \<open>int\<close>;
  \<^item> a run-time panic is the left summand of the result.
\<close>

datatype go_panic = NilDereference | NilFuncCall

type_synonym bytes = "char list"

record ExecutionOptions =
  opt_Language :: string
  opt_Filename :: string
  opt_Timeout :: int
  opt_Env :: "(string \<rightharpoonup> string) option"
  opt_WorkDir :: string
  opt_Stdin :: string
  opt_Files :: "(string \<rightharpoonup> bytes) option"
  opt_KeepArtifacts :: bool

definition time_Second :: int where
  "time_Second = 1000000000"

definition time_Minute :: int where
  "time_Minute = 60 * time_Second"

text \<open>\<open>DefaultExecutionOptions\<close>: the fields not listed in the literal are zero values.\<close>

definition DefaultExecutionOptions :: ExecutionOptions where
  "DefaultExecutionOptions =
     \<lparr> opt_Language = [], opt_Filename = [],
       opt_Timeout = 30 * time_Second,
       opt_Env = Some Map.empty,
       opt_WorkDir = ''/workspace'',
       opt_Stdin = [],
       opt_Files = Some Map.empty,
       opt_KeepArtifacts = False \<rparr>"

text \<open>
  One guarded assignment of \<open>Merge\<close>: \<open>if result.X == zero { result.X = defaults.X }\<close>.
  Reading \<open>defaults.X\<close> through a nil pointer panics; the read happens only when the
  guard holds.
\<close>

definition fill_from ::
  "ExecutionOptions option \<Rightarrow> bool \<Rightarrow> (ExecutionOptions \<Rightarrow> ExecutionOptions \<Rightarrow> ExecutionOptions)
     \<Rightarrow> ExecutionOptions \<Rightarrow> go_panic + ExecutionOptions" where
  "fill_from defaults unset assign result =
     (if unset then
        (case defaults of
           None \<Rightarrow> Inl NilDereference
         | Some d \<Rightarrow> Inr (assign d result))
      else Inr result)"

definition then_fill ::
  "go_panic + ExecutionOptions \<Rightarrow> (ExecutionOptions \<Rightarrow> go_panic + ExecutionOptions)
     \<Rightarrow> go_panic + ExecutionOptions" where
  "then_fill r f = (case r of Inl p \<Rightarrow> Inl p | Inr v \<Rightarrow> f v)"

text \<open>
  \<open>Merge\<close>: a nil receiver returns the \<open>defaults\<close> pointer itself; otherwise the receiver
  is copied and the four guarded assignments run in the order of the source
  (Timeout, WorkDir, Env, Files). Language, Filename, Stdin and KeepArtifacts are never
  assigned.
\<close>

definition Merge ::
  "ExecutionOptions option \<Rightarrow> ExecutionOptions option \<Rightarrow> go_panic + ExecutionOptions option" where
  "Merge o_ptr defaults =
     (case o_ptr of
        None \<Rightarrow> Inr defaults
      | Some ov \<Rightarrow>
          (case
             then_fill
               (then_fill
                  (then_fill
                     (fill_from defaults (opt_Timeout ov = 0)
                        (\<lambda>d r. r\<lparr>opt_Timeout := opt_Timeout d\<rparr>) ov)
                     (\<lambda>r. fill_from defaults (opt_WorkDir r = [])
                        (\<lambda>d r. r\<lparr>opt_WorkDir := opt_WorkDir d\<rparr>) r))
                  (\<lambda>r. fill_from defaults (opt_Env r = None)
                     (\<lambda>d r. r\<lparr>opt_Env := opt_Env d\<rparr>) r))
               (\<lambda>r. fill_from defaults (opt_Files r = None)
                  (\<lambda>d r. r\<lparr>opt_Files := opt_Files d\<rparr>) r)
           of
             Inl p \<Rightarrow> Inl p
           | Inr result \<Rightarrow> Inr (Some result)))"

text \<open>Concrete options used to run \<open>Merge\<close>.\<close>

definition opts_blank :: ExecutionOptions where
  "opts_blank =
     \<lparr> opt_Language = [], opt_Filename = [], opt_Timeout = 0, opt_Env = None,
       opt_WorkDir = [], opt_Stdin = [], opt_Files = None, opt_KeepArtifacts = False \<rparr>"

definition defaults_with_language :: ExecutionOptions where
  "defaults_with_language = DefaultExecutionOptions\<lparr>opt_Language := ''Go''\<rparr>"

definition opts_go_minute :: ExecutionOptions where
  "opts_go_minute = opts_blank\<lparr>opt_Language := ''Go'', opt_Timeout := time_Minute\<rparr>"

section \<open>Provider registry (internal/factory/registry.go)\<close>

text \<open>
  The registry holds two maps under one mutex. A constructor is a Go function value from
  a configuration to a provider and an error; it is modelled as a function returning
  \<open>Inl err\<close> when the error is non-nil and \<open>Inr p\<close> otherwise. A registered function value
  may be nil (\<open>Register(name, nil)\<close> is well typed); calling it panics. The type \<open>'p\<close> of
  providers includes the nil interface value.

  \<open>Get\<close> returns, beside its result, the registry after the call and the list of
  constructor invocations it made, so that "without invoking the constructor" can be
  stated.
\<close>

datatype 'e registry_error =
    NotRegistered string
  | CreateFailed string 'e

record ('c, 'e, 'p) Registry =
  constructors :: "string \<rightharpoonup> ('c \<Rightarrow> 'e + 'p) option"
  providers :: "string \<rightharpoonup> 'p"

definition NewRegistry :: "('c, 'e, 'p) Registry" where
  "NewRegistry = \<lparr> constructors = Map.empty, providers = Map.empty \<rparr>"

definition Register ::
  "('c, 'e, 'p) Registry \<Rightarrow> string \<Rightarrow> ('c \<Rightarrow> 'e + 'p) option \<Rightarrow> ('c, 'e, 'p) Registry" where
  "Register r name constructor = r\<lparr>constructors := (constructors r)(name \<mapsto> constructor)\<rparr>"

definition Get ::
  "('c, 'e, 'p) Registry \<Rightarrow> string \<Rightarrow> 'c
     \<Rightarrow> (go_panic + 'e registry_error + 'p) \<times> ('c, 'e, 'p) Registry \<times> (string \<times> 'c) list" where
  "Get r name config =
     (case providers r name of
        Some p \<Rightarrow> (Inr (Inr p), r, [])
      | None \<Rightarrow>
          (case constructors r name of
             None \<Rightarrow> (Inr (Inl (NotRegistered name)), r, [])
           | Some None \<Rightarrow> (Inl NilFuncCall, r, [])
           | Some (Some constructor) \<Rightarrow>
               (case constructor config of
                  Inl err \<Rightarrow> (Inr (Inl (CreateFailed name err)), r, [(name, config)])
                | Inr p \<Rightarrow>
                    (Inr (Inr p), r\<lparr>providers := (providers r)(name \<mapsto> p)\<rparr>, [(name, config)]))))"

text \<open>Sample constructors and registries (configuration \<open>nat\<close>, errors and providers strings).\<close>

definition ctor_ok :: "nat \<Rightarrow> string + string" where
  "ctor_ok config = Inr ''docker-client''"

definition ctor_failing :: "nat \<Rightarrow> string + string" where
  "ctor_failing config = Inl ''daemon unreachable''"

definition registry_cached :: "(nat, string, string) Registry" where
  "registry_cached =
     \<lparr> constructors = [''docker'' \<mapsto> Some ctor_failing], providers = [''docker'' \<mapsto> ''cached-client''] \<rparr>"

definition registry_fresh :: "(nat, string, string) Registry" where
  "registry_fresh = Register NewRegistry ''docker'' (Some ctor_ok)"

definition registry_broken :: "(nat, string, string) Registry" where
  "registry_broken = Register NewRegistry ''docker'' (Some ctor_failing)"

section \<open>Stream plumbing (package executor, \<open>OutputStream\<close>)\<close>

text \<open>
  \<open>StreamEventType\<close> is a Go string type. An error value is either the sentinel
  \<open>io.ErrClosedPipe\<close> or some other error; handlers may return either. The timestamp is
  the reading of the clock, supplied by the caller of the model.
\<close>

datatype 'e io_error = ErrClosedPipe | OtherError 'e

definition StreamStdout :: string where "StreamStdout = ''stdout''"
definition StreamStderr :: string where "StreamStderr = ''stderr''"
definition StreamStart :: string where "StreamStart = ''start''"
definition StreamComplete :: string where "StreamComplete = ''complete''"
definition StreamError :: string where "StreamError = ''error''"

record 'e StreamEvent =
  ev_Type :: string
  ev_Data :: string
  ev_Timestamp :: int
  ev_ExitCode :: int
  ev_Error :: "'e io_error option"

type_synonym 'e StreamHandler = "'e StreamEvent \<Rightarrow> 'e io_error option"

text \<open>
  The buffered channel \<open>make(chan *StreamEvent, bufferSize)\<close> is its queue (oldest event
  first) and its capacity. The model is sequential: no receiver is parked on the
  channel, so the non-blocking send of \<open>select { case ch <- e: default: }\<close> enqueues when
  the queue is shorter than the capacity and drops the event otherwise; it never waits.
\<close>

record 'e OutputStream =
  os_events :: "'e StreamEvent list"
  os_capacity :: nat
  os_handlers :: "'e StreamHandler list"
  os_closed :: bool
  os_eventType :: string

definition NewOutputStream :: "nat \<Rightarrow> string \<Rightarrow> 'e OutputStream" where
  "NewOutputStream bufferSize eventType =
     \<lparr> os_events = [], os_capacity = bufferSize, os_handlers = [], os_closed = False,
       os_eventType = eventType \<rparr>"

definition try_send :: "'e OutputStream \<Rightarrow> 'e StreamEvent \<Rightarrow> 'e OutputStream" where
  "try_send s event =
     (if length (os_events s) < os_capacity s
      then s\<lparr>os_events := os_events s @ [event]\<rparr>
      else s)"

text \<open>
  The handler loop: handlers run in slice order; the first non-nil error ends the loop
  and is returned. The second component counts the handlers that were invoked.
\<close>

fun call_handlers :: "'e StreamHandler list \<Rightarrow> 'e StreamEvent \<Rightarrow> 'e io_error option \<times> nat" where
  "call_handlers [] event = (None, 0)"
| "call_handlers (handler # rest) event =
     (case handler event of
        Some err \<Rightarrow> (Some err, 1)
      | None \<Rightarrow> (case call_handlers rest event of (r, n) \<Rightarrow> (r, Suc n)))"

definition WriteEvent ::
  "'e OutputStream \<Rightarrow> 'e StreamEvent \<Rightarrow> 'e io_error option \<times> 'e OutputStream \<times> nat" where
  "WriteEvent s event =
     (if os_closed s then (Some ErrClosedPipe, s, 0)
      else
        (let handlers = os_handlers s;
             s' = try_send s event
         in (case call_handlers handlers event of (err, invoked) \<Rightarrow> (err, s', invoked))))"

definition write_event_of :: "'e OutputStream \<Rightarrow> bytes \<Rightarrow> int \<Rightarrow> 'e StreamEvent" where
  "write_event_of s p now =
     \<lparr> ev_Type = os_eventType s, ev_Data = p, ev_Timestamp = now, ev_ExitCode = 0,
       ev_Error = None \<rparr>"

definition Write ::
  "'e OutputStream \<Rightarrow> bytes \<Rightarrow> int
     \<Rightarrow> (nat \<times> 'e io_error option) \<times> 'e OutputStream \<times> nat" where
  "Write s p now =
     (if os_closed s then ((0, Some ErrClosedPipe), s, 0)
      else
        (case WriteEvent s (write_event_of s p now) of
           (Some err, s', invoked) \<Rightarrow> ((0, Some err), s', invoked)
         | (None, s', invoked) \<Rightarrow> ((length p, None), s', invoked)))"

definition OnEvent :: "'e OutputStream \<Rightarrow> 'e StreamHandler \<Rightarrow> 'e OutputStream" where
  "OnEvent s handler = s\<lparr>os_handlers := os_handlers s @ [handler]\<rparr>"

text \<open>Sample handlers, events and streams.\<close>

definition handler_ok :: "string StreamHandler" where
  "handler_ok event = None"

definition handler_failing :: "string StreamHandler" where
  "handler_failing event = Some (OtherError ''consumer gone'')"

definition event_a :: "string StreamEvent" where
  "event_a = \<lparr> ev_Type = ''stdout'', ev_Data = ''a'', ev_Timestamp = 1, ev_ExitCode = 0,
               ev_Error = None \<rparr>"

definition event_b :: "string StreamEvent" where
  "event_b = \<lparr> ev_Type = ''stdout'', ev_Data = ''b'', ev_Timestamp = 2, ev_ExitCode = 0,
               ev_Error = None \<rparr>"

definition stream_full :: "string StreamHandler list \<Rightarrow> string OutputStream" where
  "stream_full hs = \<lparr> os_events = [event_a], os_capacity = 1, os_handlers = hs,
                       os_closed = False, os_eventType = ''stdout'' \<rparr>"

definition stream_roomy :: "string StreamHandler list \<Rightarrow> string OutputStream" where
  "stream_roomy hs = \<lparr> os_events = [event_a], os_capacity = 4, os_handlers = hs,
                        os_closed = False, os_eventType = ''stdout'' \<rparr>"

section \<open>Runtime catalog (package langdetect, \<open>DefaultRuntimes\<close> and \<open>GetRuntimeInfo\<close>)\<close>

text \<open>
  Descriptors are held by pointer in the source; every descriptor of the table is a
  distinct value here (their Language fields differ), so equality of records stands for
  identity of pointers. \<open>CompileCmd\<close> is \<open>None\<close> for the nil slice of an interpreted
  language.
\<close>

record RuntimeInfo =
  rt_Language :: string
  rt_Aliases :: "string list"
  rt_Runtime :: string
  rt_FileExt :: string
  rt_RunCommand :: "string list"
  rt_CompileCmd :: "string list option"
  rt_DockerImage :: string
  rt_REPLMode :: bool

definition rt_Python :: RuntimeInfo where
  "rt_Python =
     \<lparr> rt_Language = ''Python'',
       rt_Aliases = [''python'', ''python3'', ''py''],
       rt_Runtime = ''python3'',
       rt_FileExt = ''.py'',
       rt_RunCommand = [''python3''],
       rt_CompileCmd = None,
       rt_DockerImage = ''python:3.12-slim'',
       rt_REPLMode = False \<rparr>"

definition rt_Go :: RuntimeInfo where
  "rt_Go =
     \<lparr> rt_Language = ''Go'',
       rt_Aliases = [''go'', ''golang''],
       rt_Runtime = ''go'',
       rt_FileExt = ''.go'',
       rt_RunCommand = [''go'', ''run''],
       rt_CompileCmd = None,
       rt_DockerImage = ''golang:1.25-alpine'',
       rt_REPLMode = False \<rparr>"

definition rt_JavaScript :: RuntimeInfo where
  "rt_JavaScript =
     \<lparr> rt_Language = ''JavaScript'',
       rt_Aliases = [''javascript'', ''js'', ''node'', ''nodejs''],
       rt_Runtime = ''node'',
       rt_FileExt = ''.js'',
       rt_RunCommand = [''node''],
       rt_CompileCmd = None,
       rt_DockerImage = ''node:22-slim'',
       rt_REPLMode = False \<rparr>"

definition rt_TypeScript :: RuntimeInfo where
  "rt_TypeScript =
     \<lparr> rt_Language = ''TypeScript'',
       rt_Aliases = [''typescript'', ''ts''],
       rt_Runtime = ''ts-node'',
       rt_FileExt = ''.ts'',
       rt_RunCommand = [''npx'', ''ts-node''],
       rt_CompileCmd = None,
       rt_DockerImage = ''node:22-slim'',
       rt_REPLMode = False \<rparr>"

definition rt_Rust :: RuntimeInfo where
  "rt_Rust =
     \<lparr> rt_Language = ''Rust'',
       rt_Aliases = [''rust'', ''rs''],
       rt_Runtime = ''rustc'',
       rt_FileExt = ''.rs'',
       rt_RunCommand = [''/tmp/main''],
       rt_CompileCmd = Some [''rustc'', ''-o'', ''/tmp/main''],
       rt_DockerImage = ''rust:1.75-slim'',
       rt_REPLMode = False \<rparr>"

definition rt_Java :: RuntimeInfo where
  "rt_Java =
     \<lparr> rt_Language = ''Java'',
       rt_Aliases = [''java''],
       rt_Runtime = ''java'',
       rt_FileExt = ''.java'',
       rt_RunCommand = [''java''],
       rt_CompileCmd = Some [''javac''],
       rt_DockerImage = ''eclipse-temurin:21-jdk'',
       rt_REPLMode = False \<rparr>"

definition rt_C :: RuntimeInfo where
  "rt_C =
     \<lparr> rt_Language = ''C'',
       rt_Aliases = [''c''],
       rt_Runtime = ''gcc'',
       rt_FileExt = ''.c'',
       rt_RunCommand = [''/tmp/main''],
       rt_CompileCmd = Some [''gcc'', ''-o'', ''/tmp/main''],
       rt_DockerImage = ''gcc:14'',
       rt_REPLMode = False \<rparr>"

definition rt_Cpp :: RuntimeInfo where
  "rt_Cpp =
     \<lparr> rt_Language = ''C++'',
       rt_Aliases = [''cpp'', ''c++'', ''cxx''],
       rt_Runtime = ''g++'',
       rt_FileExt = ''.cpp'',
       rt_RunCommand = [''/tmp/main''],
       rt_CompileCmd = Some [''g++'', ''-o'', ''/tmp/main''],
       rt_DockerImage = ''gcc:14'',
       rt_REPLMode = False \<rparr>"

definition rt_Ruby :: RuntimeInfo where
  "rt_Ruby =
     \<lparr> rt_Language = ''Ruby'',
       rt_Aliases = [''ruby'', ''rb''],
       rt_Runtime = ''ruby'',
       rt_FileExt = ''.rb'',
       rt_RunCommand = [''ruby''],
       rt_CompileCmd = None,
       rt_DockerImage = ''ruby:3.3-slim'',
       rt_REPLMode = False \<rparr>"

definition rt_PHP :: RuntimeInfo where
  "rt_PHP =
     \<lparr> rt_Language = ''PHP'',
       rt_Aliases = [''php''],
       rt_Runtime = ''php'',
       rt_FileExt = ''.php'',
       rt_RunCommand = [''php''],
       rt_CompileCmd = None,
       rt_DockerImage = ''php:8.3-cli'',
       rt_REPLMode = False \<rparr>"

definition rt_Shell :: RuntimeInfo where
  "rt_Shell =
     \<lparr> rt_Language = ''Shell'',
       rt_Aliases = [''shell'', ''bash'', ''sh''],
       rt_Runtime = ''bash'',
       rt_FileExt = ''.sh'',
       rt_RunCommand = [''bash''],
       rt_CompileCmd = None,
       rt_DockerImage = ''bash:5'',
       rt_REPLMode = False \<rparr>"

definition rt_R :: RuntimeInfo where
  "rt_R =
     \<lparr> rt_Language = ''R'',
       rt_Aliases = [''r''],
       rt_Runtime = ''Rscript'',
       rt_FileExt = ''.R'',
       rt_RunCommand = [''Rscript''],
       rt_CompileCmd = None,
       rt_DockerImage = ''r-base:4.3.2'',
       rt_REPLMode = False \<rparr>"

definition rt_Kotlin :: RuntimeInfo where
  "rt_Kotlin =
     \<lparr> rt_Language = ''Kotlin'',
       rt_Aliases = [''kotlin'', ''kt''],
       rt_Runtime = ''kotlin'',
       rt_FileExt = ''.kt'',
       rt_RunCommand = [''kotlin''],
       rt_CompileCmd = None,
       rt_DockerImage = ''zenika/kotlin:1.9'',
       rt_REPLMode = False \<rparr>"

definition rt_Swift :: RuntimeInfo where
  "rt_Swift =
     \<lparr> rt_Language = ''Swift'',
       rt_Aliases = [''swift''],
       rt_Runtime = ''swift'',
       rt_FileExt = ''.swift'',
       rt_RunCommand = [''swift''],
       rt_CompileCmd = None,
       rt_DockerImage = ''swift:5.9'',
       rt_REPLMode = False \<rparr>"

definition rt_Scala :: RuntimeInfo where
  "rt_Scala =
     \<lparr> rt_Language = ''Scala'',
       rt_Aliases = [''scala''],
       rt_Runtime = ''scala'',
       rt_FileExt = ''.scala'',
       rt_RunCommand = [''scala''],
       rt_CompileCmd = None,
       rt_DockerImage = ''sbtscala/scala-sbt:eclipse-temurin-21.0.1_12_1.9.7_3.3.1'',
       rt_REPLMode = False \<rparr>"

definition rt_Perl :: RuntimeInfo where
  "rt_Perl =
     \<lparr> rt_Language = ''Perl'',
       rt_Aliases = [''perl'', ''pl''],
       rt_Runtime = ''perl'',
       rt_FileExt = ''.pl'',
       rt_RunCommand = [''perl''],
       rt_CompileCmd = None,
       rt_DockerImage = ''perl:5.38'',
       rt_REPLMode = False \<rparr>"

definition rt_Lua :: RuntimeInfo where
  "rt_Lua =
     \<lparr> rt_Language = ''Lua'',
       rt_Aliases = [''lua''],
       rt_Runtime = ''lua'',
       rt_FileExt = ''.lua'',
       rt_RunCommand = [''lua''],
       rt_CompileCmd = None,
       rt_DockerImage = ''nickblah/lua:5.4'',
       rt_REPLMode = False \<rparr>"

definition rt_Haskell :: RuntimeInfo where
  "rt_Haskell =
     \<lparr> rt_Language = ''Haskell'',
       rt_Aliases = [''haskell'', ''hs''],
       rt_Runtime = ''runhaskell'',
       rt_FileExt = ''.hs'',
       rt_RunCommand = [''runhaskell''],
       rt_CompileCmd = None,
       rt_DockerImage = ''haskell:9.4'',
       rt_REPLMode = False \<rparr>"

definition rt_Elixir :: RuntimeInfo where
  "rt_Elixir =
     \<lparr> rt_Language = ''Elixir'',
       rt_Aliases = [''elixir'', ''ex''],
       rt_Runtime = ''elixir'',
       rt_FileExt = ''.exs'',
       rt_RunCommand = [''elixir''],
       rt_CompileCmd = None,
       rt_DockerImage = ''elixir:1.16'',
       rt_REPLMode = False \<rparr>"

definition rt_Clojure :: RuntimeInfo where
  "rt_Clojure =
     \<lparr> rt_Language = ''Clojure'',
       rt_Aliases = [''clojure'', ''clj''],
       rt_Runtime = ''clojure'',
       rt_FileExt = ''.clj'',
       rt_RunCommand = [''clojure''],
       rt_CompileCmd = None,
       rt_DockerImage = ''clojure:tools-deps'',
       rt_REPLMode = False \<rparr>"

definition rt_SQL :: RuntimeInfo where
  "rt_SQL =
     \<lparr> rt_Language = ''SQL'',
       rt_Aliases = [''sql''],
       rt_Runtime = ''sqlite3'',
       rt_FileExt = ''.sql'',
       rt_RunCommand = [''sqlite3'', '':memory:''],
       rt_CompileCmd = None,
       rt_DockerImage = ''keinos/sqlite3:latest'',
       rt_REPLMode = False \<rparr>"

definition DefaultRuntimes_entries :: "(string \<times> RuntimeInfo) list" where
  "DefaultRuntimes_entries =
     [(''Python'', rt_Python),
      (''Go'', rt_Go),
      (''JavaScript'', rt_JavaScript),
      (''TypeScript'', rt_TypeScript),
      (''Rust'', rt_Rust),
      (''Java'', rt_Java),
      (''C'', rt_C),
      (''C++'', rt_Cpp),
      (''Ruby'', rt_Ruby),
      (''PHP'', rt_PHP),
      (''Shell'', rt_Shell),
      (''R'', rt_R),
      (''Kotlin'', rt_Kotlin),
      (''Swift'', rt_Swift),
      (''Scala'', rt_Scala),
      (''Perl'', rt_Perl),
      (''Lua'', rt_Lua),
      (''Haskell'', rt_Haskell),
      (''Elixir'', rt_Elixir),
      (''Clojure'', rt_Clojure),
      (''SQL'', rt_SQL)]"

definition DefaultRuntimes :: "string \<rightharpoonup> RuntimeInfo" where
  "DefaultRuntimes = map_of DefaultRuntimes_entries"

text \<open>
  \<open>strings.ToLower\<close> on a string of ASCII bytes maps \<open>A\<close>..\<open>Z\<close> to \<open>a\<close>..\<open>z\<close> and keeps every
  other byte. (On input with bytes above 127 Go decodes runes and uses the Unicode
  tables; that path is not modelled, and the theorems apply the function to the ASCII
  names of the table and to strings equal to them up to ASCII case.)
\<close>

definition to_lower_byte :: "char \<Rightarrow> char" where
  "to_lower_byte c =
     (let n = (of_char c :: nat) in if 65 \<le> n \<and> n \<le> 90 then char_of (n + 32) else c)"

definition strings_ToLower :: "string \<Rightarrow> string" where
  "strings_ToLower s = map to_lower_byte s"

text \<open>
  \<open>init\<close> ranges over the values of \<open>DefaultRuntimes\<close>. Go leaves the iteration order of
  a map unspecified, so the order is a parameter: any list with the elements of the
  table. Each descriptor first stores its lower-cased canonical name, then its
  lower-cased aliases in slice order; a later store overwrites an earlier one.
\<close>

definition init_descriptor :: "RuntimeInfo \<Rightarrow> (string \<rightharpoonup> RuntimeInfo) \<Rightarrow> (string \<rightharpoonup> RuntimeInfo)" where
  "init_descriptor info m =
     fold (\<lambda>alias m'. m'(strings_ToLower alias \<mapsto> info)) (rt_Aliases info)
       (m(strings_ToLower (rt_Language info) \<mapsto> info))"

definition init_aliasMap :: "RuntimeInfo list \<Rightarrow> (string \<rightharpoonup> RuntimeInfo)" where
  "init_aliasMap order = fold init_descriptor order Map.empty"

definition iteration_of_DefaultRuntimes :: "RuntimeInfo list \<Rightarrow> bool" where
  "iteration_of_DefaultRuntimes order \<longleftrightarrow>
     distinct order \<and> set order = set (map snd DefaultRuntimes_entries)"

definition GetRuntimeInfo :: "RuntimeInfo list \<Rightarrow> string \<Rightarrow> RuntimeInfo option" where
  "GetRuntimeInfo order language =
     (case DefaultRuntimes language of
        Some info \<Rightarrow> Some info
      | None \<Rightarrow> init_aliasMap order (strings_ToLower language))"

text \<open>The lower-cased names under which \<open>init\<close> stores a descriptor.\<close>

definition stored_keys :: "RuntimeInfo \<Rightarrow> string list" where
  "stored_keys info = map strings_ToLower (rt_Language info # rt_Aliases info)"

section \<open>Language detector (package langdetect, \<open>Detector\<close>)\<close>

text \<open>
  The detector calls two libraries that are not part of the repository: the go-enry
  classifier and Go's \<open>regexp\<close>. Their functions are parameters of the model. The
  confidence is a \<open>float64\<close> in the source; it only ever holds the constants 1.0, 0.95,
  0.9, 0.8, 0 or the quotient of a small integer by 5 clamped to 0.2 and 0.8, which are
  compared for equality only, so it is a rational here.
\<close>

record enry =
  enry_GetLanguageByFilename :: "string \<Rightarrow> string \<times> bool"
  enry_GetLanguageByExtension :: "string \<Rightarrow> string \<times> bool"
  enry_GetLanguageByShebang :: "bytes \<Rightarrow> string \<times> bool"
  enry_GetLanguages :: "string \<Rightarrow> bytes \<Rightarrow> string list"
  enry_GetLanguage :: "string \<Rightarrow> bytes \<Rightarrow> string"

text \<open>
  Go ranges over a map in an unspecified order that may differ from one \<open>range\<close>
  statement to the next. \<open>detectByPatterns\<close> ranges over two maps; the order of each
  visit is a parameter: the entries of \<open>patterns\<close> in the order visited, and the language
  names in the order in which \<open>range scores\<close> would yield them (names without a score
  are skipped).
\<close>

record map_order =
  range_patterns :: "(string \<times> string list) list"
  range_scores :: "string list"

record Detector =
  customMappings :: "string \<rightharpoonup> string"

definition New :: Detector where
  "New = \<lparr> customMappings = Map.empty \<rparr>"

definition AddMapping :: "Detector \<Rightarrow> string \<Rightarrow> string \<Rightarrow> Detector" where
  "AddMapping d extension language = d\<lparr>customMappings := (customMappings d)(extension \<mapsto> language)\<rparr>"

record DetectOptions =
  do_Filename :: string
  do_UseContent :: bool
  do_UseShebang :: bool
  do_UseHeuristics :: bool

definition DefaultDetectOptions :: DetectOptions where
  "DefaultDetectOptions =
     \<lparr> do_Filename = [], do_UseContent = True, do_UseShebang = True, do_UseHeuristics = True \<rparr>"

record DetectResult =
  dr_Language :: string
  dr_Confidence :: rat
  dr_Method :: string

text \<open>The characters that cannot be written inside a string literal.\<close>

definition bs :: string where "bs = [CHR 0x5C]"
definition sq :: string where "sq = [CHR 0x27]"
definition dq :: string where "dq = [CHR 0x22]"

text \<open>The table of regular expressions of \<open>detectByPatterns\<close>, in the order of the source.\<close>

definition patterns :: "(string \<times> string list) list" where
  "patterns =
     [(''Python'',
       [''(?m)^import'' @ bs @ ''s+'' @ bs @ ''w+'',
        ''(?m)^from'' @ bs @ ''s+'' @ bs @ ''w+'' @ bs @ ''s+import'',
        ''(?m)^def'' @ bs @ ''s+'' @ bs @ ''w+'' @ bs @ ''s*'' @ bs @ ''('',
        ''(?m)^class'' @ bs @ ''s+'' @ bs @ ''w+.*:'',
        ''(?m)^'' @ bs @ ''s*print'' @ bs @ ''s*'' @ bs @ ''('',
        ''exec'' @ bs @ ''s*'' @ bs @ ''('',
        ''range'' @ bs @ ''s*'' @ bs @ ''('',
        ''len'' @ bs @ ''s*'' @ bs @ ''('',
        ''str'' @ bs @ ''s*'' @ bs @ ''('',
        ''int'' @ bs @ ''s*'' @ bs @ ''('',
        ''list'' @ bs @ ''s*'' @ bs @ ''('',
        ''dict'' @ bs @ ''s*'' @ bs @ ''('',
        bs @ ''.append'' @ bs @ ''s*'' @ bs @ ''('',
        bs @ ''.join'' @ bs @ ''s*'' @ bs @ ''('',
        ''time'' @ bs @ ''.sleep'',
        ''for'' @ bs @ ''s+'' @ bs @ ''w+'' @ bs @ ''s+in'' @ bs @ ''s+'',
        ''if'' @ bs @ ''s+__name__'' @ bs @ ''s*=='',
        ''lambda'' @ bs @ ''s+'' @ bs @ ''w*:'',
        bs @ ''['' @ bs @ ''s*'' @ bs @ ''w+'' @ bs @ ''s+for'' @ bs @ ''s+'' @ bs @ ''w+'' @ bs @ ''s+in'']),
      (''Go'',
       [''(?m)^package'' @ bs @ ''s+'' @ bs @ ''w+'',
        bs @ ''bpackage'' @ bs @ ''s+main'' @ bs @ ''b'',
        ''(?m)^import'' @ bs @ ''s*'' @ bs @ ''('',
        ''(?m)^func'' @ bs @ ''s+'' @ bs @ ''w*'' @ bs @ ''s*'' @ bs @ ''('',
        bs @ ''bfunc'' @ bs @ ''s+main'' @ bs @ ''s*'' @ bs @ ''('',
        ''(?m)^type'' @ bs @ ''s+'' @ bs @ ''w+'' @ bs @ ''s+(struct|interface)'',
        '':='',
        ''fmt'' @ bs @ ''.Print'',
        ''fmt'' @ bs @ ''.Sprintf'',
        ''fmt'' @ bs @ ''.Errorf'',
        ''errors'' @ bs @ ''.New'',
        ''make'' @ bs @ ''s*'' @ bs @ ''('' @ bs @ ''s*(map|chan|'' @ bs @ ''['' @ bs @ ''])'',
        ''go'' @ bs @ ''s+func'' @ bs @ ''s*'' @ bs @ ''('',
        ''<-'' @ bs @ ''s*'' @ bs @ ''w+'',
        ''defer'' @ bs @ ''s+'',
        ''panic'' @ bs @ ''s*'' @ bs @ ''('',
        ''recover'' @ bs @ ''s*'' @ bs @ ''('',
        ''range'' @ bs @ ''s+'' @ bs @ ''w+'',
        bs @ ''['' @ bs @ '']byte'',
        bs @ ''['' @ bs @ '']string'',
        ''map'' @ bs @ ''[string'' @ bs @ '']'',
        ''interface'' @ bs @ ''{'' @ bs @ ''}'',
        ''struct'' @ bs @ ''s*'' @ bs @ ''{'']),
      (''JavaScript'',
       [''(?m)^const'' @ bs @ ''s+'' @ bs @ ''w+'' @ bs @ ''s*='',
        ''(?m)^let'' @ bs @ ''s+'' @ bs @ ''w+'' @ bs @ ''s*='',
        ''(?m)^var'' @ bs @ ''s+'' @ bs @ ''w+'' @ bs @ ''s*='',
        ''(?m)^function'' @ bs @ ''s+'' @ bs @ ''w+'' @ bs @ ''s*'' @ bs @ ''('',
        ''=>'' @ bs @ ''s*[{'' @ bs @ ''(]'',
        ''console'' @ bs @ ''.log'' @ bs @ ''s*'' @ bs @ ''('',
        ''console'' @ bs @ ''.error'' @ bs @ ''s*'' @ bs @ ''('',
        ''console'' @ bs @ ''.warn'' @ bs @ ''s*'' @ bs @ ''('',
        ''require'' @ bs @ ''s*'' @ bs @ ''('',
        ''module'' @ bs @ ''.exports'',
        ''exports'' @ bs @ ''.'',
        ''document'' @ bs @ ''.'',
        ''window'' @ bs @ ''.'',
        ''async'' @ bs @ ''s+function'',
        ''await'' @ bs @ ''s+'',
        bs @ ''.then'' @ bs @ ''s*'' @ bs @ ''('',
        bs @ ''.catch'' @ bs @ ''s*'' @ bs @ ''('',
        ''JSON'' @ bs @ ''.parse'',
        ''JSON'' @ bs @ ''.stringify'',
        ''Array'' @ bs @ ''.'',
        ''Object'' @ bs @ ''.'',
        ''Promise'' @ bs @ ''.'',
        ''new'' @ bs @ ''s+Promise'',
        ''setTimeout'' @ bs @ ''s*'' @ bs @ ''('',
        ''setInterval'' @ bs @ ''s*'' @ bs @ ''('']),
      (''TypeScript'',
       [''(?m)^interface'' @ bs @ ''s+'' @ bs @ ''w+'',
        ''(?m)^type'' @ bs @ ''s+'' @ bs @ ''w+'' @ bs @ ''s*='',
        '':'' @ bs @ ''s*(string|number|boolean|any)'' @ bs @ ''b'',
        ''<[A-Z]'' @ bs @ ''w*>'']),
      (''Rust'',
       [''(?m)^fn'' @ bs @ ''s+'' @ bs @ ''w+'',
        bs @ ''bfn'' @ bs @ ''s+main'' @ bs @ ''s*'' @ bs @ ''('',
        ''(?m)^use'' @ bs @ ''s+'' @ bs @ ''w+'',
        ''(?m)^mod'' @ bs @ ''s+'' @ bs @ ''w+'',
        ''(?m)^struct'' @ bs @ ''s+'' @ bs @ ''w+'',
        ''(?m)^impl'' @ bs @ ''s+'',
        ''(?m)^let'' @ bs @ ''s+mut'' @ bs @ ''s+'',
        ''(?m)^pub'' @ bs @ ''s+(fn|struct|enum|mod)'',
        ''println!'' @ bs @ ''s*'' @ bs @ ''('',
        ''print!'' @ bs @ ''s*'' @ bs @ ''('',
        ''eprintln!'' @ bs @ ''s*'' @ bs @ ''('',
        ''format!'' @ bs @ ''s*'' @ bs @ ''('',
        ''vec!'' @ bs @ ''s*'' @ bs @ ''['',
        ''panic!'' @ bs @ ''s*'' @ bs @ ''('',
        ''->'' @ bs @ ''s*(i32|i64|u32|u64|f32|f64|bool|String|&str|'' @ bs @ ''('' @ bs @ ''))'',
        ''&mut'' @ bs @ ''s+'' @ bs @ ''w+'',
        ''&str'',
        ''::new'' @ bs @ ''s*'' @ bs @ ''('',
        bs @ ''.unwrap'' @ bs @ ''s*'' @ bs @ ''('',
        bs @ ''.expect'' @ bs @ ''s*'' @ bs @ ''('',
        ''Option<'',
        ''Result<'',
        ''Some'' @ bs @ ''s*'' @ bs @ ''('',
        ''None'' @ bs @ ''b'',
        ''Ok'' @ bs @ ''s*'' @ bs @ ''('',
        ''Err'' @ bs @ ''s*'' @ bs @ ''('']),
      (''Java'',
       [''(?m)^public'' @ bs @ ''s+class'' @ bs @ ''s+'' @ bs @ ''w+'',
        ''(?m)^import'' @ bs @ ''s+java'' @ bs @ ''.'',
        ''(?m)^package'' @ bs @ ''s+'' @ bs @ ''w+('' @ bs @ ''.'' @ bs @ ''w+)*;'',
        ''System'' @ bs @ ''.out'' @ bs @ ''.print'',
        ''public'' @ bs @ ''s+static'' @ bs @ ''s+void'' @ bs @ ''s+main'']),
      (''Ruby'',
       [''(?m)^require'' @ bs @ ''s+['' @ sq @ dq @ '']'',
        ''(?m)^def'' @ bs @ ''s+'' @ bs @ ''w+'',
        ''(?m)^class'' @ bs @ ''s+'' @ bs @ ''w+'',
        ''(?m)^module'' @ bs @ ''s+'' @ bs @ ''w+'',
        bs @ ''.each'' @ bs @ ''s+do'' @ bs @ ''s*'' @ bs @ ''|'',
        ''puts'' @ bs @ ''s+'']),
      (''PHP'',
       [''(?m)^<'' @ bs @ ''?php'',
        bs @ ''$'' @ bs @ ''w+'' @ bs @ ''s*='',
        ''(?m)^function'' @ bs @ ''s+'' @ bs @ ''w+'' @ bs @ ''s*'' @ bs @ ''('',
        ''echo'' @ bs @ ''s+'',
        ''->'' @ bs @ ''w+'' @ bs @ ''('']),
      (''C'',
       [''(?m)^#include'' @ bs @ ''s*<'',
        ''(?m)^int'' @ bs @ ''s+main'' @ bs @ ''s*'' @ bs @ ''('',
        ''printf'' @ bs @ ''s*'' @ bs @ ''('',
        ''(?m)^(void|int|char|float|double)'' @ bs @ ''s+'' @ bs @ ''w+'' @ bs @ ''s*'' @ bs @ ''('']),
      (''C++'',
       [''(?m)^#include'' @ bs @ ''s*<iostream>'',
        ''std::'',
        ''cout'' @ bs @ ''s*<<'',
        ''(?m)^class'' @ bs @ ''s+'' @ bs @ ''w+'' @ bs @ ''s*[:{]'',
        ''(?m)^namespace'' @ bs @ ''s+'' @ bs @ ''w+'']),
      (''C#'',
       [''(?m)^using'' @ bs @ ''s+System'',
        ''(?m)^namespace'' @ bs @ ''s+'' @ bs @ ''w+'',
        ''(?m)^class'' @ bs @ ''s+'' @ bs @ ''w+'',
        ''Console'' @ bs @ ''.(Write|Read)'',
        ''(?m)^public'' @ bs @ ''s+(class|interface|enum)'']),
      (''Shell'',
       [''(?m)^#!/bin/(ba)?sh'',
        ''(?m)^'' @ bs @ ''s*if'' @ bs @ ''s+'' @ bs @ ''['' @ bs @ ''s+'',
        ''(?m)^'' @ bs @ ''s*for'' @ bs @ ''s+'' @ bs @ ''w+'' @ bs @ ''s+in'' @ bs @ ''s+'',
        bs @ ''$'' @ bs @ ''{?'' @ bs @ ''w+'' @ bs @ ''}?'',
        ''(?m)^'' @ bs @ ''s*echo'' @ bs @ ''s+'']),
      (''SQL'',
       [''(?mi)^SELECT'' @ bs @ ''s+'',
        ''(?mi)^INSERT'' @ bs @ ''s+INTO'',
        ''(?mi)^UPDATE'' @ bs @ ''s+'' @ bs @ ''w+'' @ bs @ ''s+SET'',
        ''(?mi)^CREATE'' @ bs @ ''s+TABLE'',
        ''(?mi)^DROP'' @ bs @ ''s+TABLE'']),
      (''R'',
       [''(?m)^library'' @ bs @ ''s*'' @ bs @ ''('',
        ''<-'' @ bs @ ''s*'',
        ''(?m)^function'' @ bs @ ''s*'' @ bs @ ''('',
        ''data'' @ bs @ ''.frame'' @ bs @ ''s*'' @ bs @ ''('',
        ''ggplot'' @ bs @ ''s*'' @ bs @ ''('']),
      (''Kotlin'',
       [''(?m)^fun'' @ bs @ ''s+'' @ bs @ ''w+'',
        ''(?m)^val'' @ bs @ ''s+'' @ bs @ ''w+'',
        ''(?m)^var'' @ bs @ ''s+'' @ bs @ ''w+'',
        ''(?m)^class'' @ bs @ ''s+'' @ bs @ ''w+'',
        ''println'' @ bs @ ''s*'' @ bs @ ''('']),
      (''Swift'',
       [''(?m)^import'' @ bs @ ''s+(Foundation|UIKit|SwiftUI|Cocoa|Darwin)'',
        ''(?m)^func'' @ bs @ ''s+'' @ bs @ ''w+'' @ bs @ ''s*'' @ bs @ ''([^)]*'' @ bs @ '')'' @ bs @ ''s*(->|{)'',
        ''(?m)^let'' @ bs @ ''s+'' @ bs @ ''w+'' @ bs @ ''s*:'' @ bs @ ''s*'' @ bs @ ''w+'',
        ''(?m)^var'' @ bs @ ''s+'' @ bs @ ''w+'' @ bs @ ''s*:'' @ bs @ ''s*'' @ bs @ ''w+'',
        ''(?m)^class'' @ bs @ ''s+'' @ bs @ ''w+'' @ bs @ ''s*:'' @ bs @ ''s*'' @ bs @ ''w+'',
        ''(?m)^struct'' @ bs @ ''s+'' @ bs @ ''w+'',
        ''(?m)^enum'' @ bs @ ''s+'' @ bs @ ''w+'',
        ''(?m)^protocol'' @ bs @ ''s+'' @ bs @ ''w+'',
        ''guard'' @ bs @ ''s+let'',
        ''if'' @ bs @ ''s+let'',
        ''@IBOutlet'',
        ''@IBAction'',
        ''override'' @ bs @ ''s+func'']),
      (''Scala'',
       [''(?m)^object'' @ bs @ ''s+'' @ bs @ ''w+'',
        ''(?m)^def'' @ bs @ ''s+'' @ bs @ ''w+'',
        ''(?m)^val'' @ bs @ ''s+'' @ bs @ ''w+'',
        ''(?m)^var'' @ bs @ ''s+'' @ bs @ ''w+'',
        ''println'' @ bs @ ''s*'' @ bs @ ''(''])]"

text \<open>
  The score loop: \<open>scores[lang]++\<close> for every expression of the language that matches.
  A missing key reads as zero.
\<close>

definition increment :: "(string \<rightharpoonup> int) \<Rightarrow> string \<Rightarrow> (string \<rightharpoonup> int)" where
  "increment scores lang = scores(lang \<mapsto> (case scores lang of None \<Rightarrow> 0 | Some n \<Rightarrow> n) + 1)"

definition score_language ::
  "(string \<Rightarrow> string \<Rightarrow> bool) \<Rightarrow> string \<Rightarrow> string \<times> string list
     \<Rightarrow> (string \<rightharpoonup> int) \<Rightarrow> (string \<rightharpoonup> int)" where
  "score_language matchString code entry scores =
     (case entry of (lang, regexes) \<Rightarrow>
        fold (\<lambda>pattern sc. if matchString pattern code then increment sc lang else sc)
          regexes scores)"

definition compute_scores ::
  "(string \<Rightarrow> string \<Rightarrow> bool) \<Rightarrow> (string \<times> string list) list \<Rightarrow> string \<Rightarrow> (string \<rightharpoonup> int)" where
  "compute_scores matchString visited code = fold (score_language matchString code) visited Map.empty"

text \<open>
  The selection loop: \<open>if score > bestScore\<close> with a strict comparison, so among equal
  scores the language visited first is kept.
\<close>

definition select_best :: "(string \<rightharpoonup> int) \<Rightarrow> string list \<Rightarrow> string \<times> int" where
  "select_best scores visited =
     fold (\<lambda>lang best.
             (case scores lang of
                None \<Rightarrow> best
              | Some score \<Rightarrow> if score > snd best then (lang, score) else best))
       visited ([], 0)"

definition detectByPatterns ::
  "(string \<Rightarrow> string \<Rightarrow> bool) \<Rightarrow> map_order \<Rightarrow> string \<Rightarrow> DetectResult option" where
  "detectByPatterns matchString ord code =
     (let scores = compute_scores matchString (range_patterns ord) code;
          best = select_best scores (range_scores ord);
          bestLang = fst best;
          bestScore = snd best
      in if bestScore \<ge> 1 then
           (let confidence = (of_int bestScore :: rat) / 5;
                confidence = (if confidence > 8 / 10 then 8 / 10 else confidence);
                confidence = (if confidence < 2 / 10 then 2 / 10 else confidence)
            in Some \<lparr> dr_Language = bestLang, dr_Confidence = confidence, dr_Method = ''heuristic'' \<rparr>)
         else None)"

text \<open>
  \<open>strings.TrimSpace\<close> on ASCII input removes leading and trailing tab, line feed,
  vertical tab, form feed, carriage return and space. (The Unicode spaces that Go also
  removes are multi-byte in UTF-8 and not modelled.)
\<close>

definition is_space :: "char \<Rightarrow> bool" where
  "is_space c \<longleftrightarrow> c \<in> {CHR 0x09, CHR 0x0A, CHR 0x0B, CHR 0x0C, CHR 0x0D, CHR '' ''}"

definition strings_TrimSpace :: "string \<Rightarrow> string" where
  "strings_TrimSpace s = rev (dropWhile is_space (rev (dropWhile is_space s)))"

definition strings_HasPrefix :: "string \<Rightarrow> string \<Rightarrow> bool" where
  "strings_HasPrefix s prefix \<longleftrightarrow> take (length prefix) s = prefix"

definition Detect ::
  "enry \<Rightarrow> (string \<Rightarrow> string \<Rightarrow> bool) \<Rightarrow> map_order \<Rightarrow> Detector \<Rightarrow> string \<Rightarrow> DetectOptions option
     \<Rightarrow> DetectResult" where
  "Detect lib matchString ord d code opts_ptr =
     (let opts = (case opts_ptr of None \<Rightarrow> DefaultDetectOptions | Some v \<Rightarrow> v);
          by_filename = enry_GetLanguageByFilename lib (do_Filename opts);
          by_extension = enry_GetLanguageByExtension lib (do_Filename opts);
          by_shebang = enry_GetLanguageByShebang lib code;
          filename = (if do_Filename opts = [] then ''code'' else do_Filename opts);
          languages = enry_GetLanguages lib filename code;
          lang = enry_GetLanguage lib filename code
      in
        if do_Filename opts \<noteq> [] \<and> snd by_filename \<and> fst by_filename \<noteq> [] then
          \<lparr> dr_Language = fst by_filename, dr_Confidence = 1, dr_Method = ''filename'' \<rparr>
        else if do_Filename opts \<noteq> [] \<and> snd by_extension \<and> fst by_extension \<noteq> [] then
          \<lparr> dr_Language = fst by_extension, dr_Confidence = 95 / 100, dr_Method = ''extension'' \<rparr>
        else if do_UseShebang opts \<and> strings_HasPrefix (strings_TrimSpace code) ''#!''
                \<and> snd by_shebang \<and> fst by_shebang \<noteq> [] then
          \<lparr> dr_Language = fst by_shebang, dr_Confidence = 95 / 100, dr_Method = ''shebang'' \<rparr>
        else if do_UseContent opts \<and> length languages = 1 then
          \<lparr> dr_Language = hd languages, dr_Confidence = 9 / 10, dr_Method = ''content'' \<rparr>
        else if do_UseContent opts \<and> length languages > 1 \<and> lang \<noteq> [] then
          \<lparr> dr_Language = lang, dr_Confidence = 8 / 10, dr_Method = ''classifier'' \<rparr>
        else
          (case (if do_UseHeuristics opts then detectByPatterns matchString ord code else None) of
             Some result \<Rightarrow> result
           | None \<Rightarrow> \<lparr> dr_Language = [], dr_Confidence = 0, dr_Method = ''unknown'' \<rparr>))"

text \<open>
  \<open>filepath.Ext\<close> (Unix): the suffix starting at the last dot of the last path element,
  empty when that element has no dot. The scan runs from the end of the path; the
  second argument is the part already passed.
\<close>

fun Ext_scan :: "string \<Rightarrow> string \<Rightarrow> string" where
  "Ext_scan [] passed = []"
| "Ext_scan (c # front) passed =
     (if c = CHR ''/'' then []
      else if c = CHR ''.'' then c # passed
      else Ext_scan front (c # passed))"

definition filepath_Ext :: "string \<Rightarrow> string" where
  "filepath_Ext path = Ext_scan (rev path) []"

definition DetectFromFilename :: "enry \<Rightarrow> Detector \<Rightarrow> string \<Rightarrow> DetectResult" where
  "DetectFromFilename lib d filename =
     (let ext = filepath_Ext filename;
          by_filename = enry_GetLanguageByFilename lib filename;
          by_extension = enry_GetLanguageByExtension lib filename
      in
        (case customMappings d ext of
           Some lang \<Rightarrow> \<lparr> dr_Language = lang, dr_Confidence = 1, dr_Method = ''custom'' \<rparr>
         | None \<Rightarrow>
             if snd by_filename \<and> fst by_filename \<noteq> [] then
               \<lparr> dr_Language = fst by_filename, dr_Confidence = 1, dr_Method = ''filename'' \<rparr>
             else if snd by_extension then
               \<lparr> dr_Language = fst by_extension, dr_Confidence = 95 / 100, dr_Method = ''extension'' \<rparr>
             else \<lparr> dr_Language = [], dr_Confidence = 0, dr_Method = ''unknown'' \<rparr>))"

text \<open>
  Values of the library functions on the inputs used below. go-enry knows \<open>Makefile\<close> by
  its name, knows no file called \<open>main.py\<close> by name, and resolves the extension \<open>.py\<close> to
  Python alone (the repository's test expects Python for \<open>main.py\<close>).
\<close>

definition enry_sample :: enry where
  "enry_sample =
     \<lparr> enry_GetLanguageByFilename =
         (\<lambda>f. if f = ''Makefile'' then (''Makefile'', True) else ([], False)),
       enry_GetLanguageByExtension =
         (\<lambda>f. if filepath_Ext f = ''.py'' then (''Python'', True) else ([], False)),
       enry_GetLanguageByShebang = (\<lambda>c. ([], False)),
       enry_GetLanguages = (\<lambda>f c. []),
       enry_GetLanguage = (\<lambda>f c. []) \<rparr>"

text \<open>
  The text \<open>println("hi")\<close>. Of the expressions of the table, only \<open>println\s*\(\<close> matches
  it; the table lists that expression twice, under Kotlin and under Scala.
  \<open>matchString_sample\<close> is \<open>regexp.MatchString\<close> restricted to this text.
\<close>

definition code_println :: string where
  "code_println = ''println('' @ dq @ ''hi'' @ dq @ '')''"

definition matchString_sample :: "string \<Rightarrow> string \<Rightarrow> bool" where
  "matchString_sample pattern text \<longleftrightarrow>
     text = code_println \<and> pattern = ''println'' @ bs @ ''s*'' @ bs @ ''(''"

definition heuristics_only :: DetectOptions where
  "heuristics_only =
     \<lparr> do_Filename = [], do_UseContent = False, do_UseShebang = False, do_UseHeuristics = True \<rparr>"

definition order_source :: map_order where
  "order_source = \<lparr> range_patterns = patterns, range_scores = map fst patterns \<rparr>"

definition order_reversed :: map_order where
  "order_reversed = \<lparr> range_patterns = rev patterns, range_scores = rev (map fst patterns) \<rparr>"

section \<open>Execution results (pkg/executor/result.go)\<close>

text \<open>
  An \<open>error\<close> is represented by its message; \<open>fmt.Errorf("op: %w", err)\<close> is the message
  of \<open>err\<close> behind the prefix. A nil slice is the empty list.
\<close>

type_synonym error = string

record Artifact =
  art_Name :: string
  art_Path :: string
  art_MIMEType :: string
  art_Size :: int
  art_Data :: "bytes option"

record ExecutionResult =
  res_ExitCode :: int
  res_Stdout :: string
  res_Stderr :: string
  res_Duration :: int
  res_Language :: string
  res_Artifacts :: "Artifact list"
  res_Error :: "error option"
  res_Metadata :: "(string \<rightharpoonup> string) option"

record CommandResult =
  cmd_ExitCode :: int
  cmd_Stdout :: string
  cmd_Stderr :: string
  cmd_Duration :: int

text \<open>The zero value of \<open>ExecutionResult\<close>; struct literals list the fields they set.\<close>

definition zero_result :: ExecutionResult where
  "zero_result =
     \<lparr> res_ExitCode = 0, res_Stdout = [], res_Stderr = [], res_Duration = 0, res_Language = [],
       res_Artifacts = [], res_Error = None, res_Metadata = None \<rparr>"

definition Success :: "ExecutionResult \<Rightarrow> bool" where
  "Success r \<longleftrightarrow> res_ExitCode r = 0 \<and> res_Error r = None"

section \<open>The nsjail backend (package nsjail, \<open>Instance\<close>)\<close>

text \<open>
  The instance talks to the host through \<open>os\<close> and \<open>os/exec\<close>. Every such call is
  appended to a trace, and the host's answer to a call is a function of the trace so
  far and the call's arguments, so that the host may answer the same call differently
  at different times. \<open>DeleteInstance\<close> stands for the removal of the instance from its
  provider's table.

  \<open>buildNsjailCmd\<close> assembles the argument vector of the jail from the configuration;
  its result also depends on \<open>os.Stat\<close> and on the iteration order of the environment
  maps. No property below depends on the argument vector, so the function is a
  component of the host. The same holds for \<open>filepath.Join\<close> and \<open>filepath.Dir\<close>, for the
  order in which \<open>range opts.Files\<close> yields the files, and for the order in which the
  package initialiser visited the runtime table.
\<close>

datatype os_call =
    WriteFile string bytes
  | MkdirAll string
  | RemoveAll string
  | CombinedOutput "string list"
  | Run "string list" string
  | DeleteInstance string

datatype run_error =
    ExitError int
  | OtherRunError error

record nsjail_Instance =
  ns_id :: string
  ns_sandboxDir :: string
  ns_workDir :: string
  ns_timeout :: int
  ns_env :: "(string \<rightharpoonup> string) option"
  ns_stopped :: bool

record nsjail_host =
  host_WriteFile :: "os_call list \<Rightarrow> string \<Rightarrow> bytes \<Rightarrow> error option"
  host_MkdirAll :: "os_call list \<Rightarrow> string \<Rightarrow> error option"
  host_CombinedOutput :: "os_call list \<Rightarrow> string list \<Rightarrow> bytes \<times> run_error option"
  host_Run :: "os_call list \<Rightarrow> string list \<Rightarrow> string \<Rightarrow> bytes \<times> bytes \<times> run_error option"
  host_DeadlineExceeded :: "os_call list \<Rightarrow> bool"
  host_Since :: "os_call list \<Rightarrow> int"
  host_buildNsjailCmd :: "nsjail_Instance \<Rightarrow> string list \<Rightarrow> ExecutionOptions \<Rightarrow> string list"
  host_Join :: "string \<Rightarrow> string \<Rightarrow> string"
  host_Dir :: "string \<Rightarrow> string"
  host_range_Files :: "(string \<rightharpoonup> bytes) option \<Rightarrow> (string \<times> bytes) list"
  host_init_order :: "RuntimeInfo list"

text \<open>The loop over \<open>opts.Files\<close>: the first failure ends \<open>Execute\<close> with an error.\<close>

fun ns_write_files ::
  "nsjail_host \<Rightarrow> string \<Rightarrow> os_call list \<Rightarrow> (string \<times> bytes) list \<Rightarrow> error option \<times> os_call list" where
  "ns_write_files host workDir tr [] = (None, tr)"
| "ns_write_files host workDir tr ((path, content) # rest) =
     (let fullPath = host_Join host workDir path;
          tr1 = tr @ [MkdirAll (host_Dir host fullPath)]
      in case host_MkdirAll host tr (host_Dir host fullPath) of
           Some err \<Rightarrow> (Some (''create dir for '' @ path @ '': '' @ err), tr1)
         | None \<Rightarrow>
             (let tr2 = tr1 @ [WriteFile fullPath content]
              in case host_WriteFile host tr1 fullPath content of
                   Some err \<Rightarrow> (Some (''write file '' @ path @ '': '' @ err), tr2)
                 | None \<Rightarrow> ns_write_files host workDir tr2 rest))"

text \<open>The run step of \<open>Execute\<close>, after the command line has been chosen.\<close>

definition ns_run ::
  "nsjail_host \<Rightarrow> os_call list \<Rightarrow> string list \<Rightarrow> ExecutionOptions
     \<Rightarrow> (error + ExecutionResult) \<times> os_call list" where
  "ns_run host tr runCmd opts =
     (let tr1 = tr @ [Run runCmd (opt_Stdin opts)]
      in case host_Run host tr runCmd (opt_Stdin opts) of
           (stdout, stderr, err) \<Rightarrow>
             (let finish = (\<lambda>exitCode.
                    (Inr (zero_result\<lparr> res_ExitCode := exitCode, res_Stdout := stdout,
                                        res_Stderr := stderr, res_Duration := host_Since host tr1,
                                        res_Language := opt_Language opts \<rparr>), tr1))
              in case err of
                   None \<Rightarrow> finish 0
                 | Some (ExitError code) \<Rightarrow> finish code
                 | Some (OtherRunError msg) \<Rightarrow>
                     if host_DeadlineExceeded host tr1 then (Inl ''execution timeout'', tr1)
                     else (Inl (''execution failed: '' @ msg), tr1)))"

definition ns_Execute ::
  "nsjail_host \<Rightarrow> os_call list \<Rightarrow> nsjail_Instance \<Rightarrow> string \<Rightarrow> ExecutionOptions option
     \<Rightarrow> (error + ExecutionResult) \<times> os_call list" where
  "ns_Execute host tr i code opts_ptr =
     (if ns_stopped i then (Inl ''sandbox stopped'', tr)
      else
        (let opts = (case opts_ptr of None \<Rightarrow> DefaultExecutionOptions | Some v \<Rightarrow> v)
         in case GetRuntimeInfo (host_init_order host) (opt_Language opts) of
              None \<Rightarrow> (Inl (''unsupported language: '' @ opt_Language opts), tr)
            | Some runtimeInfo \<Rightarrow>
                (let codeFilename = ''main'' @ rt_FileExt runtimeInfo;
                     codePath = host_Join host (ns_workDir i) codeFilename;
                     tr1 = tr @ [WriteFile codePath code]
                 in case host_WriteFile host tr codePath code of
                      Some err \<Rightarrow> (Inl (''write code file: '' @ err), tr1)
                    | None \<Rightarrow>
                        (case ns_write_files host (ns_workDir i) tr1
                                (host_range_Files host (opt_Files opts)) of
                           (Some err, tr2) \<Rightarrow> (Inl err, tr2)
                         | (None, tr2) \<Rightarrow>
                             (let sandboxCodePath = ''/workspace/'' @ codeFilename
                              in case rt_CompileCmd runtimeInfo of
                                   Some compile \<Rightarrow>
                                     (let compileCmd =
                                            host_buildNsjailCmd host i (compile @ [sandboxCodePath]) opts;
                                          tr3 = tr2 @ [CombinedOutput compileCmd]
                                      in case host_CombinedOutput host tr2 compileCmd of
                                           (output, Some err) \<Rightarrow>
                                             (Inr (zero_result\<lparr> res_ExitCode := 1,
                                                                res_Stderr := output,
                                                                res_Language := opt_Language opts \<rparr>),
                                              tr3)
                                         | (output, None) \<Rightarrow>
                                             ns_run host tr3
                                               (host_buildNsjailCmd host i (rt_RunCommand runtimeInfo) opts)
                                               opts)
                                 | None \<Rightarrow>
                                     ns_run host tr2
                                       (host_buildNsjailCmd host i
                                          (rt_RunCommand runtimeInfo @ [sandboxCodePath]) opts)
                                       opts)))))"

text \<open>
  \<open>ExecuteStream\<close>, after its stopped check, starts the process and two goroutines that
  feed the handler from its pipes. That part is concurrent; it is a parameter
  (\<open>stream_body\<close>) returning the error, the trace and the events handed to the handler.
\<close>

definition ns_ExecuteStream ::
  "(os_call list \<Rightarrow> nsjail_Instance \<Rightarrow> string \<Rightarrow> ExecutionOptions option
      \<Rightarrow> error option \<times> os_call list \<times> 'e StreamEvent list)
     \<Rightarrow> os_call list \<Rightarrow> nsjail_Instance \<Rightarrow> string \<Rightarrow> ExecutionOptions option
     \<Rightarrow> error option \<times> os_call list \<times> 'e StreamEvent list" where
  "ns_ExecuteStream stream_body tr i code opts_ptr =
     (if ns_stopped i then (Some ''sandbox stopped'', tr, [])
      else stream_body tr i code opts_ptr)"

definition ns_RunCommand ::
  "nsjail_host \<Rightarrow> os_call list \<Rightarrow> nsjail_Instance \<Rightarrow> string \<Rightarrow> string list
     \<Rightarrow> (error + CommandResult) \<times> os_call list" where
  "ns_RunCommand host tr i cmd args =
     (if ns_stopped i then (Inl ''sandbox stopped'', tr)
      else
        (let fullCmd = [cmd] @ args;
             nsjailCmd = host_buildNsjailCmd host i fullCmd DefaultExecutionOptions;
             tr1 = tr @ [Run nsjailCmd []]
         in case host_Run host tr nsjailCmd [] of
              (stdout, stderr, err) \<Rightarrow>
                (let finish = (\<lambda>exitCode.
                       (Inr \<lparr> cmd_ExitCode = exitCode, cmd_Stdout = stdout, cmd_Stderr = stderr,
                               cmd_Duration = host_Since host tr1 \<rparr>, tr1))
                 in case err of
                      None \<Rightarrow> finish 0
                    | Some (ExitError code) \<Rightarrow> finish code
                    | Some (OtherRunError msg) \<Rightarrow> (Inl (''run command: '' @ msg), tr1))))"

text \<open>\<open>Stop\<close>: the flag is tested and set first; the clean-up follows.\<close>

definition ns_teardown :: "nsjail_Instance \<Rightarrow> os_call list" where
  "ns_teardown i =
     (if ns_sandboxDir i \<noteq> [] then [RemoveAll (ns_sandboxDir i)] else [])
       @ [DeleteInstance (ns_id i)]"

definition ns_Stop :: "nsjail_Instance \<Rightarrow> os_call list \<Rightarrow> error option \<times> nsjail_Instance \<times> os_call list" where
  "ns_Stop i tr =
     (if ns_stopped i then (None, i, tr)
      else (None, i\<lparr>ns_stopped := True\<rparr>, tr @ ns_teardown i))"

text \<open>\<open>Stop\<close> called \<open>n\<close> times in a row; the results are listed in call order.\<close>

fun ns_Stop_times ::
  "nat \<Rightarrow> nsjail_Instance \<Rightarrow> os_call list \<Rightarrow> error option list \<times> nsjail_Instance \<times> os_call list" where
  "ns_Stop_times 0 i tr = ([], i, tr)"
| "ns_Stop_times (Suc n) i tr =
     (case ns_Stop i tr of
        (r, i1, tr1) \<Rightarrow>
          (case ns_Stop_times n i1 tr1 of (rs, i2, tr2) \<Rightarrow> (r # rs, i2, tr2)))"

section \<open>The Docker backend (package docker, \<open>Instance\<close>)\<close>

text \<open>
  The instance talks to the Docker daemon through the client library; the calls and the
  daemon's answers are modelled like the host calls of the jail. \<open>ExecCreate\<close> records
  the command, the working directory, whether standard input is attached and the
  environment (the source flattens the environment map into a list in map order; that
  order is the component \<open>daemon_range_Env\<close>). \<open>ConnWrite\<close> is the write of the standard input to the
  attached connection; the source starts it in a goroutine right after the attach, and
  the trace lists it there. The tar archive is built in memory by a helper whose result is
  the component \<open>daemon_tar\<close>.
\<close>

datatype docker_call =
    CopyToContainer string string bytes
  | ExecCreate string "string list" string bool "(string \<times> string) list"
  | ExecAttach string
  | ConnWrite string string
  | StdCopy string
  | ExecInspect string
  | ContainerStop string
  | ContainerRemove string

datatype docker_panic = SliceBoundsOutOfRange

record docker_Instance =
  dk_id :: string
  dk_workDir :: string
  dk_timeout :: int
  dk_stopped :: bool

record docker_daemon =
  daemon_tar :: "string \<Rightarrow> bytes \<Rightarrow> error + bytes"
  daemon_CopyToContainer :: "docker_call list \<Rightarrow> string \<Rightarrow> string \<Rightarrow> bytes \<Rightarrow> error option"
  daemon_ExecCreate ::
    "docker_call list \<Rightarrow> string \<Rightarrow> string list \<Rightarrow> string \<Rightarrow> bool \<Rightarrow> (string \<times> string) list
       \<Rightarrow> error + string"
  daemon_ExecAttach :: "docker_call list \<Rightarrow> string \<Rightarrow> error option"
  daemon_StdCopy :: "docker_call list \<Rightarrow> string \<Rightarrow> error + bytes \<times> bytes"
  daemon_ExecInspect :: "docker_call list \<Rightarrow> string \<Rightarrow> error + int"
  daemon_ContainerStop :: "docker_call list \<Rightarrow> string \<Rightarrow> error option"
  daemon_ContainerRemove :: "docker_call list \<Rightarrow> string \<Rightarrow> error option"
  daemon_DeadlineExceeded :: "docker_call list \<Rightarrow> bool"
  daemon_Since :: "docker_call list \<Rightarrow> int"
  daemon_format_Duration :: "int \<Rightarrow> string"
  daemon_range_Env :: "(string \<rightharpoonup> string) option \<Rightarrow> (string \<times> string) list"
  daemon_range_Files :: "(string \<rightharpoonup> bytes) option \<Rightarrow> (string \<times> bytes) list"
  daemon_init_order :: "RuntimeInfo list"

text \<open>\<open>strings.Contains\<close> and \<open>strings.LastIndex\<close> for a one-byte separator.\<close>

fun strings_Contains :: "string \<Rightarrow> string \<Rightarrow> bool" where
  "strings_Contains [] substr \<longleftrightarrow> substr = []"
| "strings_Contains (c # cs) substr \<longleftrightarrow>
     take (length substr) (c # cs) = substr \<or> strings_Contains cs substr"

fun LastIndex_from :: "nat \<Rightarrow> string \<Rightarrow> char \<Rightarrow> nat option" where
  "LastIndex_from n [] sep = None"
| "LastIndex_from n (c # cs) sep =
     (case LastIndex_from (Suc n) cs sep of
        Some k \<Rightarrow> Some k
      | None \<Rightarrow> if c = sep then Some n else None)"

definition strings_LastIndex :: "string \<Rightarrow> char \<Rightarrow> nat option" where
  "strings_LastIndex s sep = LastIndex_from 0 s sep"

text \<open>
  \<open>runExec\<close>: create the exec, attach, copy the output, inspect the exit code. An error
  is returned only when one of the four daemon calls fails; the exit code of the command
  is a field of the result.
\<close>

definition dk_runExec ::
  "docker_daemon \<Rightarrow> docker_call list \<Rightarrow> docker_Instance \<Rightarrow> string list \<Rightarrow> ExecutionOptions
     \<Rightarrow> (error + ExecutionResult) \<times> docker_call list" where
  "dk_runExec daemon tr i cmd opts =
     (let env = daemon_range_Env daemon (opt_Env opts);
          attachStdin = (opt_Stdin opts \<noteq> []);
          tr1 = tr @ [ExecCreate (dk_id i) cmd (opt_WorkDir opts) attachStdin env]
      in case daemon_ExecCreate daemon tr (dk_id i) cmd (opt_WorkDir opts) attachStdin env of
           Inl err \<Rightarrow> (Inl (''create exec: '' @ err), tr1)
         | Inr execID \<Rightarrow>
             (let tr2 = tr1 @ [ExecAttach execID]
              in case daemon_ExecAttach daemon tr1 execID of
                   Some err \<Rightarrow> (Inl (''attach exec: '' @ err), tr2)
                 | None \<Rightarrow>
                     (let tr3 = (if opt_Stdin opts \<noteq> [] then tr2 @ [ConnWrite execID (opt_Stdin opts)]
                                 else tr2);
                          tr4 = tr3 @ [StdCopy execID]
                      in case daemon_StdCopy daemon tr3 execID of
                           Inl err \<Rightarrow> (Inl (''read output: '' @ err), tr4)
                         | Inr (stdout, stderr) \<Rightarrow>
                             (let tr5 = tr4 @ [ExecInspect execID]
                              in case daemon_ExecInspect daemon tr4 execID of
                                   Inl err \<Rightarrow> (Inl (''inspect exec: '' @ err), tr5)
                                 | Inr exitCode \<Rightarrow>
                                     (Inr (zero_result\<lparr> res_ExitCode := exitCode,
                                                        res_Stdout := stdout,
                                                        res_Stderr := stderr \<rparr>), tr5)))))"

text \<open>
  \<open>writeFile\<close>: the slice expression \<open>path[:strings.LastIndex(path, "/")]\<close> panics when
  the path has no slash.
\<close>

definition dk_writeFile ::
  "docker_daemon \<Rightarrow> docker_call list \<Rightarrow> docker_Instance \<Rightarrow> string \<Rightarrow> bytes
     \<Rightarrow> (docker_panic + error option) \<times> docker_call list" where
  "dk_writeFile daemon tr i path content =
     (case daemon_tar daemon path content of
        Inl err \<Rightarrow> (Inr (Some err), tr)
      | Inr archive \<Rightarrow>
          (case strings_LastIndex path CHR ''/'' of
             None \<Rightarrow> (Inl SliceBoundsOutOfRange, tr)
           | Some k \<Rightarrow>
               (let dir = (if take k path = [] then ''/'' else take k path)
                in (Inr (daemon_CopyToContainer daemon tr (dk_id i) dir archive),
                    tr @ [CopyToContainer (dk_id i) dir archive]))))"

fun dk_write_files ::
  "docker_daemon \<Rightarrow> docker_call list \<Rightarrow> docker_Instance \<Rightarrow> (string \<times> bytes) list
     \<Rightarrow> (docker_panic + error option) \<times> docker_call list" where
  "dk_write_files daemon tr i [] = (Inr None, tr)"
| "dk_write_files daemon tr i ((path, content) # rest) =
     (case dk_writeFile daemon tr i path content of
        (Inl p, tr1) \<Rightarrow> (Inl p, tr1)
      | (Inr (Some err), tr1) \<Rightarrow> (Inr (Some (''write file '' @ path @ '': '' @ err)), tr1)
      | (Inr None, tr1) \<Rightarrow> dk_write_files daemon tr1 i rest)"

definition timeout_tip :: string where
  "timeout_tip =
     [CHR 0x0A, CHR 0x0A]
       @ ''Tip: You can increase the timeout using the -timeout flag (e.g., -timeout 10m)''"

text \<open>The run step of \<open>Execute\<close>, after the command has been chosen.\<close>

definition dk_run ::
  "docker_daemon \<Rightarrow> docker_call list \<Rightarrow> docker_Instance \<Rightarrow> string list \<Rightarrow> ExecutionOptions
     \<Rightarrow> (docker_panic + error + ExecutionResult) \<times> docker_call list" where
  "dk_run daemon tr i cmd opts =
     (case dk_runExec daemon tr i cmd opts of
        (Inl err, tr1) \<Rightarrow>
          if daemon_DeadlineExceeded daemon tr1 then
            (Inr (Inl (''execution timed out after ''
                        @ daemon_format_Duration daemon (opt_Timeout opts) @ '': '' @ err
                        @ timeout_tip)), tr1)
          else (Inr (Inl err), tr1)
      | (Inr result, tr1) \<Rightarrow>
          (Inr (Inr (result\<lparr> res_Duration := daemon_Since daemon tr1,
                              res_Language := opt_Language opts \<rparr>)), tr1))"

text \<open>
  \<open>Execute\<close>. In the compile branch the result of \<open>runExec\<close> is discarded
  (\<open>if _, err := i.runExec(...); err != nil\<close>): only a failure of the daemon calls ends
  the execution there.
\<close>

definition dk_Execute ::
  "docker_daemon \<Rightarrow> docker_call list \<Rightarrow> docker_Instance \<Rightarrow> string \<Rightarrow> ExecutionOptions option
     \<Rightarrow> (docker_panic + error + ExecutionResult) \<times> docker_call list" where
  "dk_Execute daemon tr i code opts_ptr =
     (if dk_stopped i then (Inr (Inl ''container stopped''), tr)
      else
        (let opts = (case opts_ptr of None \<Rightarrow> DefaultExecutionOptions | Some v \<Rightarrow> v)
         in case GetRuntimeInfo (daemon_init_order daemon) (opt_Language opts) of
              None \<Rightarrow> (Inr (Inl (''unsupported language: '' @ opt_Language opts)), tr)
            | Some runtimeInfo \<Rightarrow>
                (let codeFilename = ''main'' @ rt_FileExt runtimeInfo;
                     codePath0 = opt_WorkDir opts @ ''/'' @ codeFilename;
                     codePath = (if codePath0 = [] then dk_workDir i @ ''/'' @ codeFilename
                                 else codePath0)
                 in case dk_writeFile daemon tr i codePath code of
                      (Inl p, tr1) \<Rightarrow> (Inl p, tr1)
                    | (Inr (Some err), tr1) \<Rightarrow> (Inr (Inl (''write code file: '' @ err)), tr1)
                    | (Inr None, tr1) \<Rightarrow>
                        (case dk_write_files daemon tr1 i
                                (daemon_range_Files daemon (opt_Files opts)) of
                           (Inl p, tr2) \<Rightarrow> (Inl p, tr2)
                         | (Inr (Some err), tr2) \<Rightarrow> (Inr (Inl err), tr2)
                         | (Inr None, tr2) \<Rightarrow>
                             (case rt_CompileCmd runtimeInfo of
                                Some compile \<Rightarrow>
                                  (case dk_runExec daemon tr2 i (compile @ [codePath]) opts of
                                     (Inl err, tr3) \<Rightarrow> (Inr (Inl (''compile: '' @ err)), tr3)
                                   | (Inr discarded, tr3) \<Rightarrow>
                                       dk_run daemon tr3 i (rt_RunCommand runtimeInfo) opts)
                              | None \<Rightarrow>
                                  dk_run daemon tr2 i (rt_RunCommand runtimeInfo @ [codePath])
                                    opts)))))"

definition dk_ExecuteStream ::
  "(docker_call list \<Rightarrow> docker_Instance \<Rightarrow> string \<Rightarrow> ExecutionOptions option
      \<Rightarrow> error option \<times> docker_call list \<times> 'e StreamEvent list)
     \<Rightarrow> docker_call list \<Rightarrow> docker_Instance \<Rightarrow> string \<Rightarrow> ExecutionOptions option
     \<Rightarrow> error option \<times> docker_call list \<times> 'e StreamEvent list" where
  "dk_ExecuteStream stream_body tr i code opts_ptr =
     (if dk_stopped i then (Some ''container stopped'', tr, [])
      else stream_body tr i code opts_ptr)"

definition dk_RunCommand ::
  "docker_daemon \<Rightarrow> docker_call list \<Rightarrow> docker_Instance \<Rightarrow> string \<Rightarrow> string list
     \<Rightarrow> (error + CommandResult) \<times> docker_call list" where
  "dk_RunCommand daemon tr i cmd args =
     (if dk_stopped i then (Inl ''container stopped'', tr)
      else
        (let fullCmd = [cmd] @ args;
             tr1 = tr @ [ExecCreate (dk_id i) fullCmd [] False []]
         in case daemon_ExecCreate daemon tr (dk_id i) fullCmd [] False [] of
              Inl err \<Rightarrow> (Inl (''create exec: '' @ err), tr1)
            | Inr execID \<Rightarrow>
                (let tr2 = tr1 @ [ExecAttach execID]
                 in case daemon_ExecAttach daemon tr1 execID of
                      Some err \<Rightarrow> (Inl (''attach exec: '' @ err), tr2)
                    | None \<Rightarrow>
                        (let tr3 = tr2 @ [StdCopy execID]
                         in case daemon_StdCopy daemon tr2 execID of
                              Inl err \<Rightarrow> (Inl (''read output: '' @ err), tr3)
                            | Inr (stdout, stderr) \<Rightarrow>
                                (let tr4 = tr3 @ [ExecInspect execID]
                                 in case daemon_ExecInspect daemon tr3 execID of
                                      Inl err \<Rightarrow> (Inl (''inspect exec: '' @ err), tr4)
                                    | Inr exitCode \<Rightarrow>
                                        (Inr \<lparr> cmd_ExitCode = exitCode, cmd_Stdout = stdout,
                                                cmd_Stderr = stderr,
                                                cmd_Duration = daemon_Since daemon tr4 \<rparr>, tr4))))))"

text \<open>
  \<open>Stop\<close>: the flag is tested and set first. A failure of \<open>ContainerStop\<close> whose message
  does not contain \<open>No such container\<close> is returned at once, before \<open>ContainerRemove\<close>.
\<close>

definition dk_Stop ::
  "docker_daemon \<Rightarrow> docker_Instance \<Rightarrow> docker_call list
     \<Rightarrow> error option \<times> docker_Instance \<times> docker_call list" where
  "dk_Stop daemon i tr =
     (if dk_stopped i then (None, i, tr)
      else
        (let i1 = i\<lparr>dk_stopped := True\<rparr>;
             tr1 = tr @ [ContainerStop (dk_id i)];
             stop_failure =
               (case daemon_ContainerStop daemon tr (dk_id i) of
                  Some err \<Rightarrow>
                    if \<not> strings_Contains err ''No such container''
                    then Some (''stop container: '' @ err) else None
                | None \<Rightarrow> None)
         in case stop_failure of
              Some failure \<Rightarrow> (Some failure, i1, tr1)
            | None \<Rightarrow>
                (let tr2 = tr1 @ [ContainerRemove (dk_id i)]
                 in case daemon_ContainerRemove daemon tr1 (dk_id i) of
                      Some err \<Rightarrow>
                        if \<not> strings_Contains err ''No such container''
                        then (Some (''remove container: '' @ err), i1, tr2)
                        else (None, i1, tr2)
                    | None \<Rightarrow> (None, i1, tr2))))"

fun dk_Stop_times ::
  "docker_daemon \<Rightarrow> nat \<Rightarrow> docker_Instance \<Rightarrow> docker_call list
     \<Rightarrow> error option list \<times> docker_Instance \<times> docker_call list" where
  "dk_Stop_times daemon 0 i tr = ([], i, tr)"
| "dk_Stop_times daemon (Suc n) i tr =
     (case dk_Stop daemon i tr of
        (r, i1, tr1) \<Rightarrow>
          (case dk_Stop_times daemon n i1 tr1 of (rs, i2, tr2) \<Rightarrow> (r # rs, i2, tr2)))"

text \<open>Sample instances, a host and daemons used to run the operations.\<close>

definition jail :: nsjail_Instance where
  "jail = \<lparr> ns_id = ''nsjail-1'', ns_sandboxDir = ''/tmp/nsjail-1'',
             ns_workDir = ''/tmp/nsjail-1/workspace'', ns_timeout = 0, ns_env = None,
             ns_stopped = False \<rparr>"

definition container :: docker_Instance where
  "container = \<lparr> dk_id = ''c1'', dk_workDir = ''/workspace'', dk_timeout = 0, dk_stopped = False \<rparr>"

definition opts_c :: ExecutionOptions where
  "opts_c = DefaultExecutionOptions\<lparr>opt_Language := ''C''\<rparr>"

definition broken_c :: string where
  "broken_c = ''int main( {''"

definition compiler_says :: string where
  "compiler_says = ''main.c:1:11: error: expected declaration specifiers''"

definition shell_says :: string where
  "shell_says = ''exec: /tmp/main: no such file or directory''"

text \<open>
  A host on which every file operation succeeds, the compiler exits with status 1 and
  prints a diagnostic.
\<close>

definition host_sample :: nsjail_host where
  "host_sample =
     \<lparr> host_WriteFile = (\<lambda>tr path content. None),
       host_MkdirAll = (\<lambda>tr path. None),
       host_CombinedOutput = (\<lambda>tr argv. (compiler_says, Some (ExitError 1))),
       host_Run = (\<lambda>tr argv stdin. ([], [], None)),
       host_DeadlineExceeded = (\<lambda>tr. False),
       host_Since = (\<lambda>tr. 5),
       host_buildNsjailCmd = (\<lambda>i inner opts. [''nsjail'', ''--''] @ inner),
       host_Join = (\<lambda>a b. a @ ''/'' @ b),
       host_Dir = (\<lambda>p. p),
       host_range_Files = (\<lambda>files. []),
       host_init_order = map snd DefaultRuntimes_entries \<rparr>"

text \<open>
  A daemon on which every call succeeds. The exec of the compiler (\<open>gcc\<close>) exits with
  status 1 and a diagnostic on standard error; the exec of the missing binary exits
  with status 127. \<open>ContainerStop\<close> answers with \<open>stop_answer\<close>.
\<close>

definition daemon_sample :: "error option \<Rightarrow> docker_daemon" where
  "daemon_sample stop_answer =
     \<lparr> daemon_tar = (\<lambda>path content. Inr content),
       daemon_CopyToContainer = (\<lambda>tr cid dir archive. None),
       daemon_ExecCreate =
         (\<lambda>tr cid cmd workdir stdin env. Inr (if hd cmd = ''gcc'' then ''exec-compile'' else ''exec-run'')),
       daemon_ExecAttach = (\<lambda>tr execID. None),
       daemon_StdCopy =
         (\<lambda>tr execID. Inr (if execID = ''exec-compile'' then ([], compiler_says) else ([], shell_says))),
       daemon_ExecInspect = (\<lambda>tr execID. Inr (if execID = ''exec-compile'' then 1 else 127)),
       daemon_ContainerStop = (\<lambda>tr cid. stop_answer),
       daemon_ContainerRemove = (\<lambda>tr cid. None),
       daemon_DeadlineExceeded = (\<lambda>tr. False),
       daemon_Since = (\<lambda>tr. 5),
       daemon_format_Duration = (\<lambda>d. ''30s''),
       daemon_range_Env = (\<lambda>env. []),
       daemon_range_Files = (\<lambda>files. []),
       daemon_init_order = map snd DefaultRuntimes_entries \<rparr>"

section \<open>The E2B backend (internal/provider/e2b/e2b.go, \<open>Instance\<close>)\<close>

text \<open>
  The instance talks to the E2B service over HTTP. Every request sent with
  \<open>client.Do\<close> is appended to a trace (method, URL, body); the service's answer is a
  function of the trace so far and the request. \<open>json.Marshal\<close> of the request map,
  \<open>http.NewRequestWithContext\<close> and the JSON decoding of the response body are
  components of the service record, as is the clock. The instance's provider (its
  HTTP client and API key, which go into the request headers) is part of the service.
\<close>

datatype http_call = HttpDo string string bytes

record e2b_Instance =
  e2b_id :: string
  e2b_clientID :: string
  e2b_workDir :: string
  e2b_stopped :: bool

record e2b_api =
  api_Marshal :: "(string \<times> string) list \<Rightarrow> error + bytes"
  api_NewRequest :: "string \<Rightarrow> string \<Rightarrow> error option"
  api_Do :: "http_call list \<Rightarrow> string \<Rightarrow> string \<Rightarrow> bytes \<Rightarrow> error + bytes"
  api_Decode_execution :: "bytes \<Rightarrow> error + string \<times> string \<times> int \<times> string"
  api_Decode_command :: "bytes \<Rightarrow> error + string \<times> string \<times> int"
  api_Since :: "http_call list \<Rightarrow> int"
  api_Now :: "http_call list \<Rightarrow> nat \<Rightarrow> int"

definition baseURL :: string where
  "baseURL = ''https://api.e2b.dev''"

definition e2b_Execute ::
  "e2b_api \<Rightarrow> http_call list \<Rightarrow> e2b_Instance \<Rightarrow> string \<Rightarrow> ExecutionOptions option
     \<Rightarrow> (error + ExecutionResult) \<times> http_call list" where
  "e2b_Execute api tr i code opts_ptr =
     (if e2b_stopped i then (Inl ''sandbox stopped'', tr)
      else
        (let opts = (case opts_ptr of None \<Rightarrow> DefaultExecutionOptions | Some v \<Rightarrow> v);
             reqBody = [(''code'', code)]
                         @ (if opt_Language opts \<noteq> [] then [(''language'', opt_Language opts)] else []);
             url = baseURL @ ''/sandboxes/'' @ e2b_id i @ ''/code/execution''
         in case api_Marshal api reqBody of
              Inl err \<Rightarrow> (Inl (''marshal request: '' @ err), tr)
            | Inr body \<Rightarrow>
                (case api_NewRequest api ''POST'' url of
                   Some err \<Rightarrow> (Inl (''create request: '' @ err), tr)
                 | None \<Rightarrow>
                     (let tr1 = tr @ [HttpDo ''POST'' url body]
                      in case api_Do api tr ''POST'' url body of
                           Inl err \<Rightarrow> (Inl (''execute: '' @ err), tr1)
                         | Inr respBody \<Rightarrow>
                             (case api_Decode_execution api respBody of
                                Inl err \<Rightarrow> (Inl (''decode response: '' @ err), tr1)
                              | Inr (stdout, stderr, exitCode, errText) \<Rightarrow>
                                  (Inr (zero_result\<lparr> res_ExitCode := exitCode,
                                                     res_Stdout := stdout,
                                                     res_Stderr := stderr,
                                                     res_Duration := api_Since api tr1,
                                                     res_Language := opt_Language opts,
                                                     res_Error := (if errText \<noteq> [] then Some errText
                                                                   else None) \<rparr>),
                                   tr1))))))"

text \<open>
  \<open>ExecuteStream\<close> runs \<open>Execute\<close> and then feeds the handler; the handler's results are
  discarded. The third component lists the events handed to the handler. Each event
  carries its own reading of the clock: the k-th event of the call gets the k-th reading.
\<close>

definition stamp :: "e2b_api \<Rightarrow> http_call list \<Rightarrow> error StreamEvent list \<Rightarrow> error StreamEvent list" where
  "stamp api tr events =
     map (\<lambda>(k, event). event\<lparr>ev_Timestamp := api_Now api tr k\<rparr>) (enumerate 0 events)"

definition e2b_ExecuteStream ::
  "e2b_api \<Rightarrow> http_call list \<Rightarrow> e2b_Instance \<Rightarrow> string \<Rightarrow> ExecutionOptions option
     \<Rightarrow> error option \<times> http_call list \<times> error StreamEvent list" where
  "e2b_ExecuteStream api tr i code opts_ptr =
     (case e2b_Execute api tr i code opts_ptr of
        (Inl err, tr1) \<Rightarrow>
          (Some err, tr1,
           stamp api tr1
             [\<lparr> ev_Type = StreamError, ev_Data = [], ev_Timestamp = 0,
                 ev_ExitCode = 0, ev_Error = Some (OtherError err) \<rparr>])
      | (Inr result, tr1) \<Rightarrow>
          (None, tr1,
           stamp api tr1
             ((if res_Stdout result \<noteq> [] then
                 [\<lparr> ev_Type = StreamStdout, ev_Data = res_Stdout result,
                     ev_Timestamp = 0, ev_ExitCode = 0, ev_Error = None \<rparr>]
               else [])
              @ (if res_Stderr result \<noteq> [] then
                   [\<lparr> ev_Type = StreamStderr, ev_Data = res_Stderr result,
                       ev_Timestamp = 0, ev_ExitCode = 0, ev_Error = None \<rparr>]
                 else [])
              @ [\<lparr> ev_Type = StreamComplete, ev_Data = [], ev_Timestamp = 0,
                    ev_ExitCode = res_ExitCode result, ev_Error = None \<rparr>])))"

text \<open>
  \<open>RunCommand\<close> starts by joining the command and its arguments with spaces. Unlike
  \<open>Execute\<close>, it does not read the \<open>stopped\<close> flag. Its errors are returned unwrapped.
\<close>

definition e2b_RunCommand ::
  "e2b_api \<Rightarrow> http_call list \<Rightarrow> e2b_Instance \<Rightarrow> string \<Rightarrow> string list
     \<Rightarrow> (error + CommandResult) \<times> http_call list" where
  "e2b_RunCommand api tr i cmd args =
     (let fullCmd = foldl (\<lambda>acc arg. acc @ '' '' @ arg) cmd args;
          reqBody = [(''cmd'', fullCmd)];
          url = baseURL @ ''/sandboxes/'' @ e2b_id i @ ''/commands''
      in case api_Marshal api reqBody of
           Inl err \<Rightarrow> (Inl err, tr)
         | Inr body \<Rightarrow>
             (case api_NewRequest api ''POST'' url of
                Some err \<Rightarrow> (Inl err, tr)
              | None \<Rightarrow>
                  (let tr1 = tr @ [HttpDo ''POST'' url body]
                   in case api_Do api tr ''POST'' url body of
                        Inl err \<Rightarrow> (Inl err, tr1)
                      | Inr respBody \<Rightarrow>
                          (case api_Decode_command api respBody of
                             Inl err \<Rightarrow> (Inl err, tr1)
                           | Inr (stdout, stderr, exitCode) \<Rightarrow>
                               (Inr \<lparr> cmd_ExitCode = exitCode, cmd_Stdout = stdout,
                                       cmd_Stderr = stderr, cmd_Duration = api_Since api tr1 \<rparr>,
                                tr1)))))"

definition e2b_Stop ::
  "e2b_api \<Rightarrow> e2b_Instance \<Rightarrow> http_call list \<Rightarrow> error option \<times> e2b_Instance \<times> http_call list" where
  "e2b_Stop api i tr =
     (if e2b_stopped i then (None, i, tr)
      else
        (let i1 = i\<lparr>e2b_stopped := True\<rparr>;
             url = baseURL @ ''/sandboxes/'' @ e2b_id i
         in case api_NewRequest api ''DELETE'' url of
              Some err \<Rightarrow> (Some err, i1, tr)
            | None \<Rightarrow>
                (let tr1 = tr @ [HttpDo ''DELETE'' url []]
                 in case api_Do api tr ''DELETE'' url [] of
                      Inl err \<Rightarrow> (Some err, i1, tr1)
                    | Inr respBody \<Rightarrow> (None, i1, tr1))))"

section \<open>The sandbox facade (package sindoq, \<open>sandbox.RunCommand\<close> and \<open>sandbox.Stop\<close>)\<close>

text \<open>
  The facade owns a backend instance behind the \<open>provider.Instance\<close> interface; the
  interface methods used here are the components of \<open>instance_methods\<close>, over any
  instance state \<open>'i\<close> and any trace of backend calls. \<open>NewError\<close> builds the envelope
  around a cause, which is the sentinel \<open>ErrSandboxStopped\<close> or a backend error.
  \<open>RunCommand\<close> returns a backend error as it is, without the envelope. The events
  given to the event bus are listed in the order of emission.
\<close>

datatype cause = ErrSandboxStopped | BackendError error

record SandboxError =
  se_Op :: string
  se_Provider :: string
  se_SandboxID :: string
  se_Err :: cause

definition NewError :: "string \<Rightarrow> string \<Rightarrow> string \<Rightarrow> cause \<Rightarrow> SandboxError" where
  "NewError op provider sandboxID err =
     \<lparr> se_Op = op, se_Provider = provider, se_SandboxID = sandboxID, se_Err = err \<rparr>"

datatype facade_error = Envelope SandboxError | Unwrapped error

datatype bus_event = EventSandboxStopped string | EventSandboxError string error

record ('i, 'c) instance_methods =
  inst_ID :: "'i \<Rightarrow> string"
  inst_RunCommand :: "'c list \<Rightarrow> 'i \<Rightarrow> string \<Rightarrow> string list \<Rightarrow> (error + CommandResult) \<times> 'c list"
  inst_Stop :: "'i \<Rightarrow> 'c list \<Rightarrow> error option \<times> 'i \<times> 'c list"

record 'i sandbox =
  sb_instance :: 'i
  sb_stopped :: bool
  sb_providerName :: string

definition sandbox_RunCommand ::
  "('i, 'c) instance_methods \<Rightarrow> 'c list \<Rightarrow> 'i sandbox \<Rightarrow> string \<Rightarrow> string list
     \<Rightarrow> (facade_error + CommandResult) \<times> 'c list" where
  "sandbox_RunCommand m tr s cmd args =
     (if sb_stopped s then
        (Inl (Envelope (NewError ''runCommand'' (sb_providerName s) (inst_ID m (sb_instance s))
                          ErrSandboxStopped)), tr)
      else
        (case inst_RunCommand m tr (sb_instance s) cmd args of
           (Inl err, tr1) \<Rightarrow> (Inl (Unwrapped err), tr1)
         | (Inr result, tr1) \<Rightarrow> (Inr result, tr1)))"

definition sandbox_Stop ::
  "('i, 'c) instance_methods \<Rightarrow> 'i sandbox \<Rightarrow> 'c list
     \<Rightarrow> SandboxError option \<times> 'i sandbox \<times> 'c list \<times> bus_event list" where
  "sandbox_Stop m s tr =
     (if sb_stopped s then (None, s, tr, [])
      else
        (case inst_Stop m (sb_instance s) tr of
           (Some err, i1, tr1) \<Rightarrow>
             (Some (NewError ''stop'' (sb_providerName s) (inst_ID m i1) (BackendError err)),
              s\<lparr>sb_stopped := True, sb_instance := i1\<rparr>, tr1,
              [EventSandboxError (inst_ID m i1) err])
         | (None, i1, tr1) \<Rightarrow>
             (None, s\<lparr>sb_stopped := True, sb_instance := i1\<rparr>, tr1,
              [EventSandboxStopped (inst_ID m i1)])))"

text \<open>The E2B instance behind the interface, a sample instance and a sample service.\<close>

definition e2b_methods :: "e2b_api \<Rightarrow> (e2b_Instance, http_call) instance_methods" where
  "e2b_methods api =
     \<lparr> inst_ID = e2b_id,
       inst_RunCommand = e2b_RunCommand api,
       inst_Stop = e2b_Stop api \<rparr>"

definition box :: e2b_Instance where
  "box = \<lparr> e2b_id = ''sb1'', e2b_clientID = ''cl1'', e2b_workDir = ''/home/user'',
            e2b_stopped = False \<rparr>"

definition api_sample :: e2b_api where
  "api_sample =
     \<lparr> api_Marshal = (\<lambda>kv. Inr (concat (map snd kv))),
       api_NewRequest = (\<lambda>method url. None),
       api_Do = (\<lambda>tr method url body. Inr ''{}''),
       api_Decode_execution = (\<lambda>body. Inr ([], [], 0, [])),
       api_Decode_command = (\<lambda>body. Inr (''total 0'', [], 0)),
       api_Since = (\<lambda>tr. 5),
       api_Now = (\<lambda>tr k. 9) \<rparr>"

section \<open>Theorems\<close>

subsection \<open>Merge of execution options\<close>

lemma Merge_nil: "Merge None defaults = Inr defaults"
  by (simp add: Merge_def)

lemma Merge_some:
  "Merge (Some ov) (Some d) =
     Inr (Some (ov\<lparr> opt_Timeout := (if opt_Timeout ov = 0 then opt_Timeout d else opt_Timeout ov),
                    opt_WorkDir := (if opt_WorkDir ov = [] then opt_WorkDir d else opt_WorkDir ov),
                    opt_Env := (if opt_Env ov = None then opt_Env d else opt_Env ov),
                    opt_Files := (if opt_Files ov = None then opt_Files d else opt_Files ov) \<rparr>))"
  by (simp add: Merge_def then_fill_def fill_from_def)

text \<open>
  C3, as stated, fails: the claim lets every field fall back to the defaults when it is
  zero. The Language field does not. Merging options with an empty Language
  onto defaults whose Language is \<open>Go\<close> leaves the Language empty.
\<close>

theorem C3_merge_language_counterexample:
  "opt_Language opts_blank = [] \<and>
   opt_Language defaults_with_language = ''Go'' \<and>
   map_sum id (map_option opt_Language) (Merge (Some opts_blank) (Some defaults_with_language))
     = Inr (Some [])"
  by (simp add: Merge_some opts_blank_def defaults_with_language_def DefaultExecutionOptions_def)

text \<open>
  C3, amended: merging a nil options value yields the defaults; for a non-nil options
  value \<open>ov\<close> and non-nil defaults \<open>d\<close> the merge returns a fresh value whose Timeout,
  WorkDir, Env and Files are those of \<open>ov\<close> when non-zero (non-zero duration, non-empty
  string, non-nil map) and those of \<open>d\<close> otherwise, and whose Language, Filename, Stdin
  and KeepArtifacts are always those of \<open>ov\<close>.
\<close>

theorem C3_merge_amended:
  "Merge None defaults = Inr defaults \<and>
   Merge (Some ov) (Some d) =
     Inr (Some (ov\<lparr> opt_Timeout := (if opt_Timeout ov = 0 then opt_Timeout d else opt_Timeout ov),
                    opt_WorkDir := (if opt_WorkDir ov = [] then opt_WorkDir d else opt_WorkDir ov),
                    opt_Env := (if opt_Env ov = None then opt_Env d else opt_Env ov),
                    opt_Files := (if opt_Files ov = None then opt_Files d else opt_Files ov) \<rparr>))"
  by (simp add: Merge_def then_fill_def fill_from_def)

text \<open>
  The merge of the documented example: Language \<open>Go\<close> and a timeout of one minute onto
  the default options keep both and take the working directory from the defaults.
\<close>

lemma Merge_go_minute:
  "Merge (Some opts_go_minute) (Some DefaultExecutionOptions)
     = Inr (Some (opts_go_minute\<lparr> opt_WorkDir := ''/workspace'', opt_Env := Some Map.empty,
                                     opt_Files := Some Map.empty \<rparr>)) \<and>
   opt_Language opts_go_minute = ''Go'' \<and> opt_Timeout opts_go_minute = time_Minute"
  by (simp add: Merge_some opts_go_minute_def opts_blank_def DefaultExecutionOptions_def
      time_Minute_def time_Second_def)

subsection \<open>Registry lookup\<close>

text \<open>
  C7. \<open>Get\<close> on a name with a cached provider returns it, leaves the registry as it is
  and invokes no constructor. On a miss with a registered constructor that succeeds,
  the constructor is invoked once with the given configuration, its provider is
  returned and stored under the name. When the constructor fails, \<open>Get\<close> returns an
  error wrapping the constructor's error and the registry, hence the cache, is unchanged.
\<close>

theorem C7_registry_get:
  "(providers r name = Some p \<longrightarrow> Get r name config = (Inr (Inr p), r, [])) \<and>
   (providers r name = None \<and> constructors r name = Some (Some ctor) \<and> ctor config = Inr q \<longrightarrow>
      Get r name config
        = (Inr (Inr q), r\<lparr>providers := (providers r)(name \<mapsto> q)\<rparr>, [(name, config)]) \<and>
      providers (fst (snd (Get r name config))) name = Some q) \<and>
   (providers r name = None \<and> constructors r name = Some (Some ctor) \<and> ctor config = Inl err \<longrightarrow>
      Get r name config = (Inr (Inl (CreateFailed name err)), r, [(name, config)]) \<and>
      providers (fst (snd (Get r name config))) name = None)"
  by (simp add: Get_def)

theorem C7_registry_get_witness:
  "providers registry_cached ''docker'' = Some ''cached-client'' \<and>
   Get registry_cached ''docker'' 7 = (Inr (Inr ''cached-client''), registry_cached, []) \<and>
   providers registry_fresh ''docker'' = None \<and>
   constructors registry_fresh ''docker'' = Some (Some ctor_ok) \<and>
   ctor_ok 7 = Inr ''docker-client'' \<and>
   Get registry_fresh ''docker'' 7
     = (Inr (Inr ''docker-client''),
        registry_fresh\<lparr>providers := (providers registry_fresh)(''docker'' \<mapsto> ''docker-client'')\<rparr>,
        [(''docker'', 7)]) \<and>
   providers registry_broken ''docker'' = None \<and>
   constructors registry_broken ''docker'' = Some (Some ctor_failing) \<and>
   ctor_failing 7 = Inl ''daemon unreachable'' \<and>
   Get registry_broken ''docker'' 7
     = (Inr (Inl (CreateFailed ''docker'' ''daemon unreachable'')), registry_broken, [(''docker'', 7)])"
proof -
  have c: "providers registry_cached ''docker'' = Some ''cached-client''"
    by (simp add: registry_cached_def)
  have f: "providers registry_fresh ''docker'' = None \<and>
           constructors registry_fresh ''docker'' = Some (Some ctor_ok) \<and>
           ctor_ok 7 = Inr ''docker-client''"
    by (simp add: registry_fresh_def Register_def NewRegistry_def ctor_ok_def)
  have b: "providers registry_broken ''docker'' = None \<and>
           constructors registry_broken ''docker'' = Some (Some ctor_failing) \<and>
           ctor_failing 7 = Inl ''daemon unreachable''"
    by (simp add: registry_broken_def Register_def NewRegistry_def ctor_failing_def)
  from c f b
    C7_registry_get [of registry_cached "''docker''" "''cached-client''" 7]
    C7_registry_get [of registry_fresh "''docker''" _ 7 ctor_ok "''docker-client''"]
    C7_registry_get [of registry_broken "''docker''" _ 7 ctor_failing _ "''daemon unreachable''"]
  show ?thesis by simp
qed

subsection \<open>Output stream writes\<close>

lemma call_handlers_all_ok:
  "\<forall>h \<in> set hs. h e = None \<Longrightarrow> call_handlers hs e = (None, length hs)"
  by (induction hs) simp_all

lemma call_handlers_first_error:
  "\<forall>g \<in> set hs1. g e = None \<Longrightarrow> h e = Some err
     \<Longrightarrow> call_handlers (hs1 @ h # hs2) e = (Some err, Suc (length hs1))"
  by (induction hs1) simp_all

lemma try_send_full: "length (os_events s) = os_capacity s \<Longrightarrow> try_send s e = s"
  by (simp add: try_send_def)

text \<open>
  C9, as stated, fails: on a full channel the call does not always return success. With
  a registered handler that returns an error, the event is dropped from the channel and
  the call returns the handler's error.
\<close>

theorem C9_full_channel_counterexample:
  "\<not> os_closed (stream_full [handler_failing]) \<and>
   length (os_events (stream_full [handler_failing])) = os_capacity (stream_full [handler_failing]) \<and>
   WriteEvent (stream_full [handler_failing]) event_b
     = (Some (OtherError ''consumer gone''), stream_full [handler_failing], 1)"
  by (simp add: WriteEvent_def try_send_def stream_full_def handler_failing_def)

text \<open>
  C9, amended: for every open OutputStream whose channel already holds bufferSize
  events, a further WriteEvent does not wait and the full channel is not an error: the
  stream, and so the channel, is left as it was (the event is dropped), the inline
  handlers are invoked in registration order, and the result is the result of the
  handler loop: success with every handler invoked when no handler returns an error.
\<close>

theorem C9_full_channel_amended:
  "\<not> os_closed s \<and> length (os_events s) = os_capacity s \<longrightarrow>
     WriteEvent s e
       = (fst (call_handlers (os_handlers s) e), s, snd (call_handlers (os_handlers s) e)) \<and>
     ((\<forall>h \<in> set (os_handlers s). h e = None) \<longrightarrow>
        WriteEvent s e = (None, s, length (os_handlers s)))"
  by (auto simp add: WriteEvent_def try_send_full call_handlers_all_ok split: prod.splits)

theorem C9_full_channel_amended_witness:
  "\<not> os_closed (stream_full [handler_ok, handler_ok]) \<and>
   length (os_events (stream_full [handler_ok, handler_ok]))
     = os_capacity (stream_full [handler_ok, handler_ok]) \<and>
   os_handlers (stream_full [handler_ok, handler_ok]) = [handler_ok, handler_ok] \<and>
   handler_ok event_b = None \<and>
   WriteEvent (stream_full [handler_ok, handler_ok]) event_b
     = (None, stream_full [handler_ok, handler_ok], 2)"
proof -
  have h: "\<not> os_closed (stream_full [handler_ok, handler_ok]) \<and>
           length (os_events (stream_full [handler_ok, handler_ok]))
             = os_capacity (stream_full [handler_ok, handler_ok])"
    by (simp add: stream_full_def)
  have k: "\<forall>h \<in> set (os_handlers (stream_full [handler_ok, handler_ok])). h event_b = None"
    by (simp add: stream_full_def handler_ok_def)
  have n: "length (os_handlers (stream_full [handler_ok, handler_ok])) = 2"
    by (simp add: stream_full_def)
  from h C9_full_channel_amended [of "stream_full [handler_ok, handler_ok]" event_b]
  have "(\<forall>h \<in> set (os_handlers (stream_full [handler_ok, handler_ok])). h event_b = None) \<longrightarrow>
        WriteEvent (stream_full [handler_ok, handler_ok]) event_b
          = (None, stream_full [handler_ok, handler_ok],
             length (os_handlers (stream_full [handler_ok, handler_ok])))"
    by blast
  with k have "WriteEvent (stream_full [handler_ok, handler_ok]) event_b
          = (None, stream_full [handler_ok, handler_ok],
             length (os_handlers (stream_full [handler_ok, handler_ok])))"
    by blast
  with h n show ?thesis by (simp add: stream_full_def handler_ok_def)
qed

text \<open>
  C10. On an open stream whose handlers \<open>hs1\<close> all accept the event and whose next
  handler \<open>h\<close> returns an error, WriteEvent invokes exactly \<open>hs1\<close> and \<open>h\<close> (the handlers
  \<open>hs2\<close> after it are not invoked) and returns that error; the channel send has already
  happened and is kept: with room in the channel the event is at its end. Write, for
  the event it builds, reports 0 bytes with the same error.
\<close>

theorem C10_handler_error:
  "\<not> os_closed s \<and> os_handlers s = hs1 @ h # hs2 \<and> (\<forall>g \<in> set hs1. g e = None) \<and> h e = Some err \<longrightarrow>
     WriteEvent s e = (Some err, try_send s e, Suc (length hs1)) \<and>
     (length (os_events s) < os_capacity s \<longrightarrow> os_events (try_send s e) = os_events s @ [e]) \<and>
     (e = write_event_of s p now \<longrightarrow>
        Write s p now = ((0, Some err), try_send s e, Suc (length hs1)))"
  by (auto simp add: WriteEvent_def Write_def call_handlers_first_error try_send_def)

theorem C10_handler_error_witness:
  "\<not> os_closed (stream_roomy [handler_ok, handler_failing, handler_ok]) \<and>
   os_handlers (stream_roomy [handler_ok, handler_failing, handler_ok])
     = [handler_ok] @ handler_failing # [handler_ok] \<and>
   handler_ok (write_event_of (stream_roomy [handler_ok, handler_failing, handler_ok]) ''b'' 2) = None \<and>
   handler_failing (write_event_of (stream_roomy [handler_ok, handler_failing, handler_ok]) ''b'' 2)
     = Some (OtherError ''consumer gone'') \<and>
   WriteEvent (stream_roomy [handler_ok, handler_failing, handler_ok]) event_b
     = (Some (OtherError ''consumer gone''),
        (stream_roomy [handler_ok, handler_failing, handler_ok])\<lparr>os_events := [event_a, event_b]\<rparr>,
        2) \<and>
   Write (stream_roomy [handler_ok, handler_failing, handler_ok]) ''b'' 2
     = ((0, Some (OtherError ''consumer gone'')),
        (stream_roomy [handler_ok, handler_failing, handler_ok])\<lparr>os_events := [event_a, event_b]\<rparr>,
        2)"
proof -
  let ?s = "stream_roomy [handler_ok, handler_failing, handler_ok]"
  have ev: "write_event_of ?s ''b'' 2 = event_b"
    by (simp add: write_event_of_def stream_roomy_def event_b_def)
  have hyp: "\<not> os_closed ?s \<and> os_handlers ?s = [handler_ok] @ handler_failing # [handler_ok] \<and>
             (\<forall>g \<in> set [handler_ok]. g event_b = None) \<and>
             handler_failing event_b = Some (OtherError ''consumer gone'')"
    by (simp add: stream_roomy_def handler_ok_def handler_failing_def)
  have room: "length (os_events ?s) < os_capacity ?s"
    by (simp add: stream_roomy_def)
  have sent: "try_send ?s event_b = ?s\<lparr>os_events := [event_a, event_b]\<rparr>"
    by (simp add: try_send_def stream_roomy_def)
  from hyp room sent ev
    C10_handler_error [of ?s "[handler_ok]" handler_failing "[handler_ok]" event_b
                          "OtherError ''consumer gone''" "''b''" 2]
  show ?thesis by simp
qed

subsection \<open>Runtime catalog lookup\<close>

lemma catalog_keys_distinct:
  "distinct (concat (map (\<lambda>d. remdups (stored_keys d)) (map snd DefaultRuntimes_entries)))"
  by code_simp

lemma catalog_languages_distinct: "distinct (map fst DefaultRuntimes_entries)"
  by code_simp

lemma catalog_keys_are_languages: "list_all (\<lambda>(k, d). k = rt_Language d) DefaultRuntimes_entries"
  by code_simp

lemma unique_owner:
  "distinct (concat (map (\<lambda>d. remdups (f d)) ds)) \<Longrightarrow> d \<in> set ds \<Longrightarrow> d' \<in> set ds
     \<Longrightarrow> k \<in> set (f d) \<Longrightarrow> k \<in> set (f d') \<Longrightarrow> d = d'"
  by (induction ds) auto

lemma init_descriptor_apply:
  "init_descriptor info m k = (if k \<in> set (stored_keys info) then Some info else m k)"
proof -
  have "fold (\<lambda>alias m'. m'(strings_ToLower alias \<mapsto> info)) as m0 k
          = (if k \<in> strings_ToLower ` set as then Some info else m0 k)" for as m0
    by (induction as arbitrary: m0) auto
  then show ?thesis
    by (auto simp add: init_descriptor_def stored_keys_def)
qed

lemma fold_init_descriptor:
  "\<forall>d' \<in> set order. k \<in> set (stored_keys d') \<longrightarrow> d' = d
     \<Longrightarrow> fold init_descriptor order m k
           = (if \<exists>d' \<in> set order. k \<in> set (stored_keys d') then Some d else m k)"
  by (induction order arbitrary: m) (auto simp add: init_descriptor_apply)


lemma DefaultRuntimes_Some:
  "DefaultRuntimes s = Some i \<Longrightarrow> (s, i) \<in> set DefaultRuntimes_entries \<and> s = rt_Language i"
proof -
  assume "DefaultRuntimes s = Some i"
  then have m: "(s, i) \<in> set DefaultRuntimes_entries"
    by (simp add: DefaultRuntimes_def map_of_SomeD)
  with catalog_keys_are_languages show ?thesis
    by (auto simp add: list_all_iff)
qed

lemma DefaultRuntimes_canonical:
  "(key, d) \<in> set DefaultRuntimes_entries \<Longrightarrow> DefaultRuntimes (rt_Language d) = Some d"
proof -
  assume m: "(key, d) \<in> set DefaultRuntimes_entries"
  with catalog_keys_are_languages have "key = rt_Language d"
    by (auto simp add: list_all_iff)
  with m catalog_languages_distinct show ?thesis
    by (simp add: DefaultRuntimes_def)
qed

lemma aliasMap_stored_key:
  assumes ord: "iteration_of_DefaultRuntimes order"
    and d: "d \<in> snd ` set DefaultRuntimes_entries"
    and k: "k \<in> set (stored_keys d)"
  shows "init_aliasMap order k = Some d"
proof -
  from ord have so: "set order = set (map snd DefaultRuntimes_entries)"
    by (simp add: iteration_of_DefaultRuntimes_def)
  have "\<forall>d' \<in> set order. k \<in> set (stored_keys d') \<longrightarrow> d' = d"
  proof (intro ballI impI)
    fix d' assume "d' \<in> set order" and "k \<in> set (stored_keys d')"
    with so d k catalog_keys_distinct show "d' = d"
      using unique_owner [of stored_keys "map snd DefaultRuntimes_entries" d' d k] by simp
  qed
  then have "fold init_descriptor order Map.empty k
               = (if \<exists>d' \<in> set order. k \<in> set (stored_keys d') then Some d else None)"
    by (simp add: fold_init_descriptor)
  with so d k show ?thesis
    by (auto simp add: init_aliasMap_def)
qed

lemma GetRuntimeInfo_any_casing:
  assumes ord: "iteration_of_DefaultRuntimes order"
    and d: "(key, d) \<in> set DefaultRuntimes_entries"
    and n: "n \<in> set (rt_Language d # rt_Aliases d)"
    and s: "strings_ToLower s = strings_ToLower n"
  shows "GetRuntimeInfo order s = Some d"
proof -
  from d have din: "d \<in> snd ` set DefaultRuntimes_entries" by force
  from n s have k: "strings_ToLower s \<in> set (stored_keys d)"
    unfolding stored_keys_def by (metis imageI list.set_map)
  show ?thesis
  proof (cases "DefaultRuntimes s")
    case None
    with aliasMap_stored_key [OF ord din k] show ?thesis
      by (simp add: GetRuntimeInfo_def)
  next
    case (Some i)
    then have i: "(s, i) \<in> set DefaultRuntimes_entries" and si: "s = rt_Language i"
      using DefaultRuntimes_Some by blast+
    from i have iin: "i \<in> set (map snd DefaultRuntimes_entries)" by force
    from si have ki: "strings_ToLower s \<in> set (stored_keys i)"
      by (simp add: stored_keys_def)
    from din have din': "d \<in> set (map snd DefaultRuntimes_entries)" by simp
    have "i = d"
      using unique_owner [OF catalog_keys_distinct iin din' ki k] .
    with Some show ?thesis
      by (simp add: GetRuntimeInfo_def)
  qed
qed

text \<open>
  C4. Whatever order \<open>init\<close> visits the table in, every descriptor of the table is
  returned by the lookup of its canonical name, and by the lookup of any string that
  equals one of its aliases up to ASCII letter case.
\<close>

theorem C4_catalog_lookup:
  "iteration_of_DefaultRuntimes order \<and> (key, d) \<in> set DefaultRuntimes_entries \<longrightarrow>
     GetRuntimeInfo order (rt_Language d) = Some d \<and>
     (\<forall>a \<in> set (rt_Aliases d). \<forall>s. strings_ToLower s = strings_ToLower a \<longrightarrow>
        GetRuntimeInfo order s = Some d)"
proof (intro impI conjI ballI allI)
  assume h: "iteration_of_DefaultRuntimes order \<and> (key, d) \<in> set DefaultRuntimes_entries"
  then have "DefaultRuntimes (rt_Language d) = Some d"
    using DefaultRuntimes_canonical [of key d] by simp
  then show "GetRuntimeInfo order (rt_Language d) = Some d"
    by (simp add: GetRuntimeInfo_def)
next
  fix a s
  assume h: "iteration_of_DefaultRuntimes order \<and> (key, d) \<in> set DefaultRuntimes_entries"
    and a: "a \<in> set (rt_Aliases d)"
    and s: "strings_ToLower s = strings_ToLower a"
  from h a s show "GetRuntimeInfo order s = Some d"
    using GetRuntimeInfo_any_casing [of order key d a s] by simp
qed

lemma reversed_iteration: "iteration_of_DefaultRuntimes (rev (map snd DefaultRuntimes_entries))"
  unfolding iteration_of_DefaultRuntimes_def by code_simp

theorem C4_catalog_lookup_witness:
  "iteration_of_DefaultRuntimes (rev (map snd DefaultRuntimes_entries)) \<and>
   (''C++'', rt_Cpp) \<in> set DefaultRuntimes_entries \<and>
   ''cxx'' \<in> set (rt_Aliases rt_Cpp) \<and>
   strings_ToLower ''CxX'' = strings_ToLower ''cxx'' \<and>
   GetRuntimeInfo (rev (map snd DefaultRuntimes_entries)) ''C++'' = Some rt_Cpp \<and>
   GetRuntimeInfo (rev (map snd DefaultRuntimes_entries)) ''CxX'' = Some rt_Cpp"
proof -
  have e: "(''C++'', rt_Cpp) \<in> set DefaultRuntimes_entries"
    by (simp add: DefaultRuntimes_entries_def)
  have a: "''cxx'' \<in> set (rt_Aliases rt_Cpp)"
    by (simp add: rt_Cpp_def)
  have l: "rt_Language rt_Cpp = ''C++''"
    by (simp add: rt_Cpp_def)
  have s: "strings_ToLower ''CxX'' = strings_ToLower ''cxx''"
    by code_simp
  from reversed_iteration e a l s
    C4_catalog_lookup [of "rev (map snd DefaultRuntimes_entries)" "''C++''" rt_Cpp]
  show ?thesis by simp
qed

subsection \<open>Detection from a file name\<close>

text \<open>
  C5, as stated, fails: \<open>main.py\<close> has the extension of the Python descriptor, and the
  detector answers Python through the extension stage, whose confidence is 0.95, not 1.0.
\<close>

theorem C5_extension_confidence_counterexample:
  "filepath_Ext ''main.py'' = rt_FileExt rt_Python \<and>
   DetectFromFilename enry_sample New ''main.py''
     = \<lparr> dr_Language = rt_Language rt_Python, dr_Confidence = 95 / 100, dr_Method = ''extension'' \<rparr> \<and>
   dr_Confidence (DetectFromFilename enry_sample New ''main.py'') \<noteq> 1"
  by (simp add: DetectFromFilename_def enry_sample_def New_def filepath_Ext_def rt_Python_def)

text \<open>
  C5, amended: \<open>DetectFromFilename\<close> does not consult the runtime catalog. A custom
  mapping for the extension gives the mapped language with confidence 1.0 (method
  custom); otherwise an exact file-name match of the classifier gives its language with
  confidence 1.0 (method filename); otherwise an unambiguous extension match of the
  classifier gives its language with confidence 0.95 (method extension). Confidence 1.0
  is returned by the first two stages only.
\<close>

theorem C5_detect_from_filename_amended:
  "(customMappings d (filepath_Ext filename) = Some lang \<longrightarrow>
      DetectFromFilename lib d filename
        = \<lparr> dr_Language = lang, dr_Confidence = 1, dr_Method = ''custom'' \<rparr>) \<and>
   (customMappings d (filepath_Ext filename) = None \<and>
    enry_GetLanguageByFilename lib filename = (lang, True) \<and> lang \<noteq> [] \<longrightarrow>
      DetectFromFilename lib d filename
        = \<lparr> dr_Language = lang, dr_Confidence = 1, dr_Method = ''filename'' \<rparr>) \<and>
   (customMappings d (filepath_Ext filename) = None \<and>
    \<not> (snd (enry_GetLanguageByFilename lib filename) \<and> fst (enry_GetLanguageByFilename lib filename) \<noteq> []) \<and>
    enry_GetLanguageByExtension lib filename = (lang, True) \<longrightarrow>
      DetectFromFilename lib d filename
        = \<lparr> dr_Language = lang, dr_Confidence = 95 / 100, dr_Method = ''extension'' \<rparr>) \<and>
   (dr_Confidence (DetectFromFilename lib d filename) = 1 \<longrightarrow>
      dr_Method (DetectFromFilename lib d filename) = ''custom'' \<or>
      dr_Method (DetectFromFilename lib d filename) = ''filename'')"
  by (simp add: DetectFromFilename_def Let_def split: option.split)

theorem C5_detect_from_filename_amended_witness:
  "customMappings (AddMapping New ''.mojo'' ''Python'') (filepath_Ext ''app.mojo'') = Some ''Python'' \<and>
   DetectFromFilename enry_sample (AddMapping New ''.mojo'' ''Python'') ''app.mojo''
     = \<lparr> dr_Language = ''Python'', dr_Confidence = 1, dr_Method = ''custom'' \<rparr> \<and>
   customMappings New (filepath_Ext ''Makefile'') = None \<and>
   enry_GetLanguageByFilename enry_sample ''Makefile'' = (''Makefile'', True) \<and>
   DetectFromFilename enry_sample New ''Makefile''
     = \<lparr> dr_Language = ''Makefile'', dr_Confidence = 1, dr_Method = ''filename'' \<rparr> \<and>
   customMappings New (filepath_Ext ''main.py'') = None \<and>
   enry_GetLanguageByFilename enry_sample ''main.py'' = ([], False) \<and>
   enry_GetLanguageByExtension enry_sample ''main.py'' = (''Python'', True) \<and>
   DetectFromFilename enry_sample New ''main.py''
     = \<lparr> dr_Language = ''Python'', dr_Confidence = 95 / 100, dr_Method = ''extension'' \<rparr> \<and>
   dr_Confidence (DetectFromFilename enry_sample New ''Makefile'') = 1 \<and>
   dr_Method (DetectFromFilename enry_sample New ''Makefile'') = ''filename''"
proof -
  have c: "customMappings (AddMapping New ''.mojo'' ''Python'') (filepath_Ext ''app.mojo'') = Some ''Python''"
    by (simp add: AddMapping_def New_def filepath_Ext_def)
  have f: "customMappings New (filepath_Ext ''Makefile'') = None \<and>
           enry_GetLanguageByFilename enry_sample ''Makefile'' = (''Makefile'', True) \<and>
           ''Makefile'' \<noteq> []"
    by (simp add: New_def enry_sample_def)
  have e: "customMappings New (filepath_Ext ''main.py'') = None \<and>
           enry_GetLanguageByFilename enry_sample ''main.py'' = ([], False) \<and>
           enry_GetLanguageByExtension enry_sample ''main.py'' = (''Python'', True)"
    by (simp add: New_def enry_sample_def filepath_Ext_def)
  from c f e
    C5_detect_from_filename_amended
      [of "AddMapping New ''.mojo'' ''Python''" "''app.mojo''" "''Python''" enry_sample]
    C5_detect_from_filename_amended [of New "''Makefile''" "''Makefile''" enry_sample]
    C5_detect_from_filename_amended [of New "''main.py''" "''Python''" enry_sample]
  show ?thesis by simp
qed

subsection \<open>Heuristic detection and the order of map iteration\<close>

lemma scores_println:
  "compute_scores matchString_sample patterns code_println = [''Kotlin'' \<mapsto> 1, ''Scala'' \<mapsto> 1]"
  unfolding compute_scores_def patterns_def
  by (simp add: score_language_def matchString_sample_def code_println_def bs_def dq_def
      sq_def increment_def fun_eq_iff)

lemma sample_orders_are_iterations:
  "set (range_patterns order_reversed) = set (range_patterns order_source) \<and>
   set (range_scores order_reversed) = set (range_scores order_source) \<and>
   range_patterns order_source = patterns \<and>
   range_scores order_source = map fst patterns"
  by (simp add: order_reversed_def order_source_def)

text \<open>
  C8 does not hold of the code. With only the heuristic stage enabled, the text
  \<open>println("hi")\<close> scores one match for Kotlin and one for Scala. The selection loop
  keeps the first language it visits among those with the highest score, and it visits
  them in the iteration order of a Go map: visiting Kotlin first yields Kotlin, visiting
  Scala first yields Scala. Two calls with the same inputs can so return different
  results.
\<close>

theorem C8_tie_follows_map_order:
  "Detect enry_sample matchString_sample order_source New code_println (Some heuristics_only)
     = \<lparr> dr_Language = ''Kotlin'', dr_Confidence = 2 / 10, dr_Method = ''heuristic'' \<rparr> \<and>
   Detect enry_sample matchString_sample order_reversed New code_println (Some heuristics_only)
     = \<lparr> dr_Language = ''Scala'', dr_Confidence = 2 / 10, dr_Method = ''heuristic'' \<rparr>"
  by code_simp

subsection \<open>Stopped instances\<close>

lemma ns_Stop_sets_flag: "ns_stopped (fst (snd (ns_Stop i tr)))"
  by (simp add: ns_Stop_def)

lemma dk_Stop_sets_flag: "dk_stopped (fst (snd (dk_Stop daemon j tr)))"
  by (simp add: dk_Stop_def Let_def split: option.split)

lemma e2b_Stop_sets_flag: "e2b_stopped (fst (snd (e2b_Stop api i tr)))"
  by (simp add: e2b_Stop_def Let_def split: option.split sum.split)

text \<open>
  The jail and Docker backends guard every entry point: on a stopped instance
  \<open>Execute\<close>, \<open>ExecuteStream\<close> and \<open>RunCommand\<close> return an error without any backend call,
  and \<open>Stop\<close> returns nil and changes nothing.
\<close>

lemma jail_and_docker_stopped_is_terminal:
  "(ns_stopped i \<longrightarrow>
      ns_Execute host tr i code opts = (Inl ''sandbox stopped'', tr) \<and>
      ns_ExecuteStream ns_body tr i code opts = (Some ''sandbox stopped'', tr, []) \<and>
      ns_RunCommand host tr i cmd args = (Inl ''sandbox stopped'', tr) \<and>
      ns_Stop i tr = (None, i, tr)) \<and>
   (dk_stopped j \<longrightarrow>
      dk_Execute daemon dtr j code opts = (Inr (Inl ''container stopped''), dtr) \<and>
      dk_ExecuteStream dk_body dtr j code opts = (Some ''container stopped'', dtr, []) \<and>
      dk_RunCommand daemon dtr j cmd args = (Inl ''container stopped'', dtr) \<and>
      dk_Stop daemon j dtr = (None, j, dtr))"
  by (simp add: ns_Execute_def ns_ExecuteStream_def ns_RunCommand_def ns_Stop_def
      dk_Execute_def dk_ExecuteStream_def dk_RunCommand_def dk_Stop_def)

text \<open>
  The E2B backend guards \<open>Execute\<close>, and through it \<open>ExecuteStream\<close> (whose handler gets
  one error event), and \<open>Stop\<close>.
\<close>

lemma e2b_guarded_entry_points:
  "e2b_stopped i \<Longrightarrow>
     e2b_Execute api tr i code opts = (Inl ''sandbox stopped'', tr) \<and>
     e2b_ExecuteStream api tr i code opts
       = (Some ''sandbox stopped'', tr,
          [\<lparr> ev_Type = StreamError, ev_Data = [], ev_Timestamp = api_Now api tr 0,
              ev_ExitCode = 0, ev_Error = Some (OtherError ''sandbox stopped'') \<rparr>]) \<and>
     e2b_Stop api i tr = (None, i, tr)"
  by (simp add: e2b_Execute_def e2b_ExecuteStream_def e2b_Stop_def stamp_def)

text \<open>\<open>RunCommand\<close> of the E2B backend never reads the flag.\<close>

lemma e2b_RunCommand_ignores_flag:
  "e2b_RunCommand api tr (i\<lparr>e2b_stopped := b\<rparr>) cmd args = e2b_RunCommand api tr i cmd args"
  by (simp add: e2b_RunCommand_def)

text \<open>
  The facade has its own flag: once \<open>sandbox.Stop\<close> has returned, \<open>sandbox.RunCommand\<close>
  returns the envelope around \<open>ErrSandboxStopped\<close> and does not reach the backend, whatever
  the backend is; a second \<open>sandbox.Stop\<close> is a no-op.
\<close>

lemma sandbox_Stop_sets_flag: "sb_stopped (fst (snd (sandbox_Stop m s tr)))"
  by (simp add: sandbox_Stop_def split: prod.split option.split)

lemma sandbox_stopped_is_terminal:
  "sb_stopped s \<Longrightarrow>
     sandbox_RunCommand m tr s cmd args
       = (Inl (Envelope (NewError ''runCommand'' (sb_providerName s) (inst_ID m (sb_instance s))
                           ErrSandboxStopped)), tr) \<and>
     sandbox_Stop m s tr = (None, s, tr, [])"
  by (simp add: sandbox_RunCommand_def sandbox_Stop_def)

text \<open>
  C1 does not hold of the code. On the E2B backend, \<open>Stop\<close> sends the DELETE request and
  sets the flag; a later \<open>Execute\<close> on that instance returns the error
  \<open>sandbox stopped\<close> without a request, but a later \<open>RunCommand\<close> sends its POST request
  to the service and returns the command's result, not an error.
\<close>

theorem C1_e2b_RunCommand_after_Stop:
  "e2b_Stop api_sample box []
     = (None, box\<lparr>e2b_stopped := True\<rparr>, [HttpDo ''DELETE'' ''https://api.e2b.dev/sandboxes/sb1'' []]) \<and>
   e2b_Execute api_sample [HttpDo ''DELETE'' ''https://api.e2b.dev/sandboxes/sb1'' []]
       (box\<lparr>e2b_stopped := True\<rparr>) ''print(1)'' None
     = (Inl ''sandbox stopped'', [HttpDo ''DELETE'' ''https://api.e2b.dev/sandboxes/sb1'' []]) \<and>
   e2b_RunCommand api_sample [HttpDo ''DELETE'' ''https://api.e2b.dev/sandboxes/sb1'' []]
       (box\<lparr>e2b_stopped := True\<rparr>) ''ls'' [''-l'']
     = (Inr \<lparr> cmd_ExitCode = 0, cmd_Stdout = ''total 0'', cmd_Stderr = [], cmd_Duration = 5 \<rparr>,
        [HttpDo ''DELETE'' ''https://api.e2b.dev/sandboxes/sb1'' [],
         HttpDo ''POST'' ''https://api.e2b.dev/sandboxes/sb1/commands'' ''ls -l''])"
  by (simp add: e2b_Stop_def e2b_Execute_def e2b_RunCommand_def api_sample_def box_def
      baseURL_def)

subsection \<open>Repeated Stop\<close>

lemma ns_Stop_times_stopped:
  "ns_stopped i \<Longrightarrow> ns_Stop_times n i tr = (replicate n None, i, tr)"
  by (induction n) (simp_all add: ns_Stop_def)

lemma dk_Stop_times_stopped:
  "dk_stopped j \<Longrightarrow> dk_Stop_times daemon n j tr = (replicate n None, j, tr)"
  by (induction n) (simp_all add: dk_Stop_def)

lemma dk_Stop_instance:
  "\<not> dk_stopped j \<Longrightarrow> fst (snd (dk_Stop daemon j tr)) = j\<lparr>dk_stopped := True\<rparr>"
  by (simp add: dk_Stop_def Let_def split: option.split)

lemma dk_Stop_times_first:
  "dk_Stop_times daemon (Suc n) j tr
     = (fst (dk_Stop daemon j tr)
          # fst (dk_Stop_times daemon n (fst (snd (dk_Stop daemon j tr))) (snd (snd (dk_Stop daemon j tr)))),
        fst (snd (dk_Stop_times daemon n (fst (snd (dk_Stop daemon j tr))) (snd (snd (dk_Stop daemon j tr))))),
        snd (snd (dk_Stop_times daemon n (fst (snd (dk_Stop daemon j tr))) (snd (snd (dk_Stop daemon j tr))))))"
  by (simp split: prod.split)

lemma dk_Stop_trace:
  "\<not> dk_stopped j \<Longrightarrow>
     snd (snd (dk_Stop daemon j tr))
       = tr @ (if (case daemon_ContainerStop daemon tr (dk_id j) of
                     None \<Rightarrow> True
                   | Some err \<Rightarrow> strings_Contains err ''No such container'')
               then [ContainerStop (dk_id j), ContainerRemove (dk_id j)]
               else [ContainerStop (dk_id j)])"
  by (simp add: dk_Stop_def Let_def split: option.split)

text \<open>
  C6, as stated, fails for the Docker backend: when \<open>ContainerStop\<close> fails with an error
  other than "No such container", the first \<open>Stop\<close> returns that error before
  \<open>ContainerRemove\<close>, and the second \<open>Stop\<close> is a no-op, so the container is stopped once
  but removed zero times.
\<close>

theorem C6_docker_remove_skipped_counterexample:
  "dk_Stop_times (daemon_sample (Some ''context deadline exceeded'')) 2 container []
     = ([Some ''stop container: context deadline exceeded'', None],
        container\<lparr>dk_stopped := True\<rparr>,
        [ContainerStop ''c1''])"
  by (simp add: numeral_2_eq_2 dk_Stop_def daemon_sample_def container_def)

text \<open>
  C6, amended: on an instance that is not stopped, \<open>Stop\<close> called N times (N at least 1)
  returns nil on calls 2 to N and issues backend calls on the first call only; the later
  calls are no-ops by the instance's own flag. The first call of the jail backend
  removes the sandbox directory (when one is set) and deregisters the instance, once.
  The first call of the Docker backend calls \<open>ContainerStop\<close> once and then
  \<open>ContainerRemove\<close> once, except that \<open>ContainerRemove\<close> is skipped when \<open>ContainerStop\<close>
  fails with an error other than "No such container".
\<close>

theorem C6_stop_idempotent:
  "(\<not> ns_stopped i \<longrightarrow>
      ns_Stop_times (Suc n) i tr
        = (replicate (Suc n) None, i\<lparr>ns_stopped := True\<rparr>, tr @ ns_teardown i)) \<and>
   (\<not> dk_stopped j \<longrightarrow>
      dk_Stop_times daemon (Suc n) j dtr
        = (fst (dk_Stop daemon j dtr) # replicate n None,
           j\<lparr>dk_stopped := True\<rparr>,
           dtr @ (if (case daemon_ContainerStop daemon dtr (dk_id j) of
                        None \<Rightarrow> True
                      | Some err \<Rightarrow> strings_Contains err ''No such container'')
                  then [ContainerStop (dk_id j), ContainerRemove (dk_id j)]
                  else [ContainerStop (dk_id j)])))"
proof (intro conjI impI)
  assume "\<not> ns_stopped i"
  then show "ns_Stop_times (Suc n) i tr
        = (replicate (Suc n) None, i\<lparr>ns_stopped := True\<rparr>, tr @ ns_teardown i)"
    by (simp add: ns_Stop_def ns_Stop_times_stopped)
next
  assume open_j: "\<not> dk_stopped j"
  have flag: "dk_stopped (fst (snd (dk_Stop daemon j dtr)))"
    by (rule dk_Stop_sets_flag)
  show "dk_Stop_times daemon (Suc n) j dtr
        = (fst (dk_Stop daemon j dtr) # replicate n None,
           j\<lparr>dk_stopped := True\<rparr>,
           dtr @ (if (case daemon_ContainerStop daemon dtr (dk_id j) of
                        None \<Rightarrow> True
                      | Some err \<Rightarrow> strings_Contains err ''No such container'')
                  then [ContainerStop (dk_id j), ContainerRemove (dk_id j)]
                  else [ContainerStop (dk_id j)]))"
    unfolding dk_Stop_times_first dk_Stop_times_stopped [OF flag]
    using dk_Stop_instance [OF open_j] dk_Stop_trace [OF open_j] by simp
qed

theorem C6_stop_idempotent_witness:
  "\<not> ns_stopped jail \<and>
   ns_Stop_times 3 jail []
     = ([None, None, None], jail\<lparr>ns_stopped := True\<rparr>,
        [RemoveAll ''/tmp/nsjail-1'', DeleteInstance ''nsjail-1'']) \<and>
   \<not> dk_stopped container \<and>
   dk_Stop_times (daemon_sample None) 3 container []
     = ([None, None, None], container\<lparr>dk_stopped := True\<rparr>,
        [ContainerStop ''c1'', ContainerRemove ''c1''])"
proof -
  have a: "\<not> ns_stopped jail" "\<not> dk_stopped container"
    by (simp_all add: jail_def container_def)
  have t: "ns_teardown jail = [RemoveAll ''/tmp/nsjail-1'', DeleteInstance ''nsjail-1'']"
    by (simp add: ns_teardown_def jail_def)
  have f: "fst (dk_Stop (daemon_sample None) container []) = None"
    by (simp add: dk_Stop_def daemon_sample_def container_def)
  have s: "daemon_ContainerStop (daemon_sample None) [] (dk_id container) = None"
    by (simp add: daemon_sample_def)
  have c: "dk_id container = ''c1''"
    by (simp add: container_def)
  have three: "(3::nat) = Suc 2" by simp
  from a t f s c C6_stop_idempotent [of jail 2 "[]" container "daemon_sample None" "[]"]
  show ?thesis
    unfolding three by (simp add: numeral_2_eq_2)
qed

subsection \<open>Compile failures\<close>

text \<open>
  The jail backend turns a failing compile step into a result: exit code 1, the
  compiler's combined output as standard error, no error value.
\<close>

lemma ns_Execute_compile_failure:
  assumes "\<not> ns_stopped i"
    and "GetRuntimeInfo (host_init_order host) (opt_Language opts) = Some info"
    and "rt_CompileCmd info = Some compile"
    and "host_WriteFile host tr (host_Join host (ns_workDir i) (''main'' @ rt_FileExt info)) code = None"
    and "ns_write_files host (ns_workDir i)
           (tr @ [WriteFile (host_Join host (ns_workDir i) (''main'' @ rt_FileExt info)) code])
           (host_range_Files host (opt_Files opts)) = (None, tr2)"
    and "host_CombinedOutput host tr2
           (host_buildNsjailCmd host i (compile @ [''/workspace/'' @ ''main'' @ rt_FileExt info]) opts)
           = (output, Some (ExitError status))"
  shows "fst (ns_Execute host tr i code (Some opts))
           = Inr (zero_result\<lparr> res_ExitCode := 1, res_Stderr := output,
                               res_Language := opt_Language opts \<rparr>)"
  using assms by (simp add: ns_Execute_def Let_def)

lemma GetRuntimeInfo_C: "GetRuntimeInfo order ''C'' = Some rt_C"
  by (simp add: GetRuntimeInfo_def DefaultRuntimes_def DefaultRuntimes_entries_def)

lemma rt_C_fields:
  "rt_CompileCmd rt_C = Some [''gcc'', ''-o'', ''/tmp/main'']"
  "rt_RunCommand rt_C = [''/tmp/main'']"
  "rt_FileExt rt_C = ''.c''"
  by (simp_all add: rt_C_def)

lemma opts_c_fields:
  "opt_Language opts_c = ''C''" "opt_WorkDir opts_c = ''/workspace''" "opt_Stdin opts_c = []"
  by (simp_all add: opts_c_def DefaultExecutionOptions_def)

lemma ns_Execute_compile_failure_sample:
  "fst (ns_Execute host_sample [] jail broken_c (Some opts_c))
     = Inr (zero_result\<lparr> res_ExitCode := 1, res_Stderr := compiler_says, res_Language := ''C'' \<rparr>)"
  by (simp add: ns_Execute_def Let_def GetRuntimeInfo_C rt_C_fields opts_c_fields
      host_sample_def jail_def)

text \<open>
  C2 does not hold of the Docker backend. The descriptor of C has a compile command;
  the compiler exec exits with status 1 and prints a diagnostic. \<open>Execute\<close> discards
  that result, goes on to run \<open>/tmp/main\<close>, and returns the result of the run step: exit
  code 127 and the shell's message, without the compiler's output.
\<close>

theorem C2_docker_ignores_compile_failure:
  "rt_CompileCmd rt_C = Some [''gcc'', ''-o'', ''/tmp/main''] \<and>
   fst (dk_runExec (daemon_sample None) [] container [''gcc'', ''-o'', ''/tmp/main'', ''/workspace/main.c'']
          opts_c)
     = Inr (zero_result\<lparr> res_ExitCode := 1, res_Stderr := compiler_says \<rparr>) \<and>
   fst (dk_Execute (daemon_sample None) [] container broken_c (Some opts_c))
     = Inr (Inr (zero_result\<lparr> res_ExitCode := 127, res_Stderr := shell_says,
                                res_Duration := 5, res_Language := ''C'' \<rparr>))"
proof -
  have compile_step:
    "dk_runExec (daemon_sample None) tr container
        [''gcc'', ''-o'', ''/tmp/main'', ''/workspace/main.c''] opts_c
       = (Inr (zero_result\<lparr> res_ExitCode := 1, res_Stderr := compiler_says \<rparr>),
          tr @ [ExecCreate ''c1'' [''gcc'', ''-o'', ''/tmp/main'', ''/workspace/main.c''] ''/workspace''
                  False [],
                ExecAttach ''exec-compile'', StdCopy ''exec-compile'', ExecInspect ''exec-compile''])"
    for tr
    by (simp add: Let_def dk_runExec_def opts_c_fields daemon_sample_def container_def
        zero_result_def)
  have run_step:
    "dk_runExec (daemon_sample None) tr container [''/tmp/main''] opts_c
       = (Inr (zero_result\<lparr> res_ExitCode := 127, res_Stderr := shell_says \<rparr>),
          tr @ [ExecCreate ''c1'' [''/tmp/main''] ''/workspace'' False [],
                ExecAttach ''exec-run'', StdCopy ''exec-run'', ExecInspect ''exec-run''])"
    for tr
    by (simp add: Let_def dk_runExec_def opts_c_fields daemon_sample_def container_def
        zero_result_def)
  have write_step:
    "dk_writeFile (daemon_sample None) [] container ''/workspace/main.c'' broken_c
       = (Inr None, [CopyToContainer ''c1'' ''/workspace'' broken_c])"
    by (simp add: Let_def dk_writeFile_def strings_LastIndex_def daemon_sample_def container_def)
  have files: "daemon_range_Files (daemon_sample None) (opt_Files opts_c) = []"
    and since: "daemon_Since (daemon_sample None) tr = 5"
    and deadline: "\<not> daemon_DeadlineExceeded (daemon_sample None) tr"
    and order: "daemon_init_order (daemon_sample None) = map snd DefaultRuntimes_entries"
    and running: "\<not> dk_stopped container" for tr
    by (simp_all add: daemon_sample_def container_def)
  show ?thesis
    by (simp add: dk_Execute_def dk_run_def Let_def GetRuntimeInfo_C rt_C_fields opts_c_fields
        compile_step run_step write_step files since deadline running zero_result_def)
qed

end
